theory Spec2Isabelle
  imports Main
begin

section \<open>Errors and Go library functions\<close>

text \<open>
  Errors are values. \<open>Panic\<close> is not a returned error: it marks a call that panics (an
  explicit \<^verbatim>\<open>panic(err)\<close> or an index out of range), which unwinds through every
  caller of this code (none recovers).
\<close>

datatype error =
    DfsError string
  | PickleError string
  | AppendToDirectory
  | WriteToDirectory
  | ShortWrite
  | SheetFSUnrecoverableErr
  | Panic string

text \<open>Go's \<^verbatim>\<open>uint\<close> is taken at 64 bits: the conversion from \<^verbatim>\<open>int\<close> and the addition wrap.\<close>

definition uint :: "int \<Rightarrow> nat" where
  "uint i = nat (i mod 2 ^ 64)"

definition uadd :: "nat \<Rightarrow> nat \<Rightarrow> nat" where
  "uadd a b = nat ((int a + int b) mod 2 ^ 64)"

text \<open>\<^verbatim>\<open>strconv.Itoa\<close>: the decimal numeral of an int, unpadded, with a minus sign below zero.\<close>

definition digitChar :: "nat \<Rightarrow> char" where
  "digitChar d = ''0123456789'' ! d"

fun natDigits :: "nat \<Rightarrow> string" where
  "natDigits n = (if n < 10 then [digitChar n] else natDigits (n div 10) @ [digitChar (n mod 10)])"

declare natDigits.simps [simp del]

definition Itoa :: "int \<Rightarrow> string" where
  "Itoa i = (if i < 0 then CHR ''-'' # natDigits (nat (- i)) else natDigits (nat i))"

text \<open>
  \<^verbatim>\<open>strconv.Atoi\<close>: an optional sign, then one or more decimal digits, the value within
  the 64-bit int range; anything else is an error (\<open>None\<close>).
\<close>

definition isDigit :: "char \<Rightarrow> bool" where
  "isDigit c = (48 \<le> (of_char c :: nat) \<and> (of_char c :: nat) \<le> 57)"

fun digitsValue :: "nat \<Rightarrow> string \<Rightarrow> nat" where
  "digitsValue acc [] = acc"
| "digitsValue acc (c # cs) = digitsValue (acc * 10 + ((of_char c :: nat) - 48)) cs"

definition Atoi :: "string \<Rightarrow> int option" where
  "Atoi s =
     (case s of
        [] \<Rightarrow> None
      | c # cs \<Rightarrow>
          (let neg = (c = CHR ''-'');
               ds = (if c = CHR ''-'' \<or> c = CHR ''+'' then cs else s)
           in if ds = [] \<or> \<not> list_all isDigit ds then None
              else (let v = (if neg then - int (digitsValue 0 ds) else int (digitsValue 0 ds))
                    in if v < - (2 ^ 63) \<or> 2 ^ 63 \<le> v then None else Some v)))"

text \<open>\<^verbatim>\<open>strings.Split(s, ".")[0]\<close>: the text before the first dot.\<close>

definition splitDotHead :: "string \<Rightarrow> string" where
  "splitDotHead s = takeWhile (\<lambda>c. c \<noteq> CHR ''.'') s"

text \<open>
  \<^verbatim>\<open>sort.Strings\<close>: increasing order of Go's string comparison, which is lexicographic on
  the bytes.
\<close>

fun strLess :: "string \<Rightarrow> string \<Rightarrow> bool" where
  "strLess [] [] = False"
| "strLess [] (y # ys) = True"
| "strLess (x # xs) [] = False"
| "strLess (x # xs) (y # ys) =
     (if (of_char x :: nat) < of_char y then True
      else if (of_char y :: nat) < of_char x then False
      else strLess xs ys)"

fun insertString :: "string \<Rightarrow> string list \<Rightarrow> string list" where
  "insertString s [] = [s]"
| "insertString s (t # ts) = (if strLess t s then t # insertString s ts else s # t # ts)"

definition sortStrings :: "string list \<Rightarrow> string list" where
  "sortStrings xs = foldr insertString xs []"

section \<open>Package dfs (the distributed file store)\<close>

text \<open>
  Package \<^verbatim>\<open>backend/dfs\<close> is not among the sources, so its functions are parameters:
  a record of operations on a store of type \<open>'d\<close>. \<open>Stat\<close>, \<open>Open\<close>, \<open>Read\<close>, \<open>Scan\<close> and
  \<open>Close\<close> return values only; \<open>Create\<close>, \<open>Write\<close> and \<open>Truncate\<close> also return the store
  they leave. The client's table of descriptors is not part of the store. \<open>Write\<close> returns
  how many bytes it wrote, taken to be non-negative.
\<close>

record FileInfo =
  Name :: string
  IsDir :: bool
  Size :: int

record 'd dfs =
  Create :: "'d \<Rightarrow> string \<Rightarrow> (error + int) \<times> 'd"
  Stat :: "'d \<Rightarrow> string \<Rightarrow> error + FileInfo"
  Open :: "'d \<Rightarrow> string \<Rightarrow> error + int"
  Read :: "'d \<Rightarrow> int \<Rightarrow> int \<Rightarrow> int \<Rightarrow> error + string"
  Write :: "'d \<Rightarrow> int \<Rightarrow> int \<Rightarrow> string \<Rightarrow> (error + nat) \<times> 'd"
  Truncate :: "'d \<Rightarrow> int \<Rightarrow> int \<Rightarrow> error option \<times> 'd"
  Close :: "'d \<Rightarrow> int \<Rightarrow> error option"
  Scan :: "'d \<Rightarrow> string \<Rightarrow> error + FileInfo list"

section \<open>Package dao\<close>

text \<open>
  \<^verbatim>\<open>writeAll\<close>: the loop hands \<^verbatim>\<open>content[:toWrite]\<close> to \<^verbatim>\<open>dfs.Write\<close> at every round.
  It runs for as long as bytes remain, so it is a partial function: \<open>None\<close> is a loop that
  never ends (a \<open>Write\<close> that keeps writing nothing).
\<close>

partial_function (option) writeAllLoop ::
  "'d dfs \<Rightarrow> int \<Rightarrow> string \<Rightarrow> 'd \<Rightarrow> int \<Rightarrow> int \<Rightarrow> (error option \<times> 'd) option" where
  "writeAllLoop ops fd content d off toWrite =
     (if toWrite > 0 then
        (case Write ops d fd off (take (nat toWrite) content) of
           (Inl err, d') \<Rightarrow> Some (Some err, d')
         | (Inr n, d') \<Rightarrow> writeAllLoop ops fd content d' (off + int n) (toWrite - int n))
      else Some (if toWrite \<noteq> 0 then Some ShortWrite else None, d))"

declare writeAllLoop.simps [code]

definition writeAll :: "'d dfs \<Rightarrow> 'd \<Rightarrow> int \<Rightarrow> int \<Rightarrow> string \<Rightarrow> (error option \<times> 'd) option" where
  "writeAll ops d fd off content = writeAllLoop ops fd content d off (int (length content))"

text \<open>
  \<^verbatim>\<open>FileCreate\<close>. \<^verbatim>\<open>utils.Zeros(n)\<close> is taken to be \<open>n\<close> zero bytes; the code of this
  repository only ever passes \<open>initSize = 0\<close>.
\<close>

definition FileCreate :: "'d dfs \<Rightarrow> 'd \<Rightarrow> string \<Rightarrow> int \<Rightarrow> (error option \<times> 'd) option" where
  "FileCreate ops d path initSize =
     (case Create ops d path of
        (Inl err, d1) \<Rightarrow> Some (Some err, d1)
      | (Inr fd, d1) \<Rightarrow>
          (if initSize \<noteq> 0 then
             (case writeAll ops d1 fd 0 (replicate (nat initSize) (CHR 0x00)) of
                None \<Rightarrow> None
              | Some (Some err, d2) \<Rightarrow> Some (Some err, d2)
              | Some (None, d2) \<Rightarrow> Some (Close ops d2 fd, d2))
           else Some (Close ops d1 fd, d1)))"

definition FileGetAll :: "'d dfs \<Rightarrow> 'd \<Rightarrow> string \<Rightarrow> error + string" where
  "FileGetAll ops d path =
     (case Stat ops d path of
        Inl err \<Rightarrow> Inl err
      | Inr fileInfo \<Rightarrow>
          (case Open ops d path of
             Inl err \<Rightarrow> Inl err
           | Inr fd \<Rightarrow> Read ops d fd 0 (Size fileInfo)))"

definition FileAppend :: "'d dfs \<Rightarrow> 'd \<Rightarrow> string \<Rightarrow> string \<Rightarrow> (error option \<times> 'd) option" where
  "FileAppend ops d path content =
     (case Stat ops d path of
        Inl err \<Rightarrow> Some (Some err, d)
      | Inr fileInfo \<Rightarrow>
          (if IsDir fileInfo then Some (Some AppendToDirectory, d)
           else (case Open ops d path of
                   Inl err \<Rightarrow> Some (Some err, d)
                 | Inr fd \<Rightarrow>
                     (case writeAll ops d fd (Size fileInfo) content of
                        None \<Rightarrow> None
                      | Some (Some err, d1) \<Rightarrow> Some (Some err, d1)
                      | Some (None, d1) \<Rightarrow> Some (Close ops d1 fd, d1)))))"

definition FileOverwriteAll :: "'d dfs \<Rightarrow> 'd \<Rightarrow> string \<Rightarrow> string \<Rightarrow> (error option \<times> 'd) option" where
  "FileOverwriteAll ops d path content =
     (case Stat ops d path of
        Inl err \<Rightarrow> Some (Some err, d)
      | Inr fileInfo \<Rightarrow>
          (if IsDir fileInfo then Some (Some WriteToDirectory, d)
           else (case Open ops d path of
                   Inl err \<Rightarrow> Some (Some err, d)
                 | Inr fd \<Rightarrow>
                     (let toWrite = int (length content);
                          (err, d1) = (if Size fileInfo > toWrite then Truncate ops d fd toWrite
                                       else (None, d))
                      in case err of
                           Some e \<Rightarrow> Some (Some e, d1)
                         | None \<Rightarrow>
                             (case writeAll ops d1 fd 0 content of
                                None \<Rightarrow> None
                              | Some (Some e, d2) \<Rightarrow> Some (Some e, d2)
                              | Some (None, d2) \<Rightarrow> Some (Close ops d2 fd, d2))))))"

text \<open>
  \<^verbatim>\<open>DirFileNamesAll\<close>: the loop is bounded by \<^verbatim>\<open>len(filenames)\<close>, the slice it is filling,
  and reads \<^verbatim>\<open>fileInfos[i]\<close>.
\<close>

function dirNamesLoop :: "FileInfo list \<Rightarrow> nat \<Rightarrow> string list \<Rightarrow> error + string list" where
  "dirNamesLoop fileInfos i filenames =
     (if i < length filenames then
        (if i < length fileInfos
         then dirNamesLoop fileInfos (i + 1) (filenames @ [Name (fileInfos ! i)])
         else Inl (Panic ''index out of range''))
      else Inr filenames)"
  by pat_completeness auto
termination
  by (relation "measure (\<lambda>(fileInfos, i, filenames). length fileInfos - i)") auto

declare dirNamesLoop.simps [simp del]

definition DirFileNamesAll :: "'d dfs \<Rightarrow> 'd \<Rightarrow> string \<Rightarrow> error + string list" where
  "DirFileNamesAll ops d path =
     (case Scan ops d path of
        Inl err \<Rightarrow> Inl err
      | Inr fileInfos \<Rightarrow> dirNamesLoop fileInfos 0 [])"

definition DirFilenamesAllSorted :: "'d dfs \<Rightarrow> 'd \<Rightarrow> string \<Rightarrow> error + string list" where
  "DirFilenamesAllSorted ops d path =
     (case DirFileNamesAll ops d path of
        Inl err \<Rightarrow> Inl err
      | Inr filenames \<Rightarrow> Inr (sortStrings filenames))"

text \<open>
  The listing as the specification words it (one name per entry of the fetched listing,
  then sorted), to be compared with the two functions above.
\<close>

definition DirFileNamesAll_spec :: "'d dfs \<Rightarrow> 'd \<Rightarrow> string \<Rightarrow> error + string list" where
  "DirFileNamesAll_spec ops d path =
     (case Scan ops d path of
        Inl err \<Rightarrow> Inl err
      | Inr fileInfos \<Rightarrow> Inr (map Name fileInfos))"

definition DirListSorted_spec :: "'d dfs \<Rightarrow> 'd \<Rightarrow> string \<Rightarrow> error + string list" where
  "DirListSorted_spec ops d path =
     (case DirFileNamesAll_spec ops d path of
        Inl err \<Rightarrow> Inl err
      | Inr filenames \<Rightarrow> Inr (sortStrings filenames))"

section \<open>Package gdocFS, json.Marshal and cache.MemSheet\<close>

text \<open>
  Packages \<^verbatim>\<open>backend/lib/gdocFS\<close> and \<^verbatim>\<open>backend/lib/cache\<close> are not among the sources.
  The two pickle types carry the fields the specification lists; the path functions, the
  decoders and the encoder (\<^verbatim>\<open>json.Marshal\<close>) are parameters, and so are the methods of
  \<^verbatim>\<open>MemSheet\<close> over a type \<open>'ms\<close> of sheets. A log decoder returns the entries and the
  error both, as the Go function does. \<^verbatim>\<open>errors.WithStack\<close> keeps nil and wraps an
  error; the wrapping is left out. \<open>SetCell\<close> is the method \<^verbatim>\<open>Set\<close> of a sheet. The sheet's
  lock is not modelled.
\<close>

record SheetLogPickle =
  Lid :: nat
  Row :: int
  Col :: int
  Old :: string
  New :: string

record SheetCheckPointPickle =
  Cid :: nat
  Timestamp :: nat
  Rows :: int
  Columns :: int
  Content :: "string list"

record gdocFS =
  GetLogRootPath :: "string \<Rightarrow> nat \<Rightarrow> string"
  GetCheckPointRootPath :: "string \<Rightarrow> nat \<Rightarrow> string"
  GetLogPath :: "string \<Rightarrow> nat \<Rightarrow> nat \<Rightarrow> string"
  GetCheckPointPath :: "string \<Rightarrow> nat \<Rightarrow> nat \<Rightarrow> string"
  PickleSheetLogsFromContent :: "string \<Rightarrow> SheetLogPickle list \<times> error option"
  PickleSheetCheckPointFromContent :: "string \<Rightarrow> error + SheetCheckPointPickle"
  MarshalSheetLog :: "SheetLogPickle \<Rightarrow> string"
  MarshalSheetCheckPoint :: "SheetCheckPointPickle \<Rightarrow> string"

record 'ms memSheetOps =
  NewMemSheet :: "int \<Rightarrow> int \<Rightarrow> 'ms"
  NewMemSheetFromStringSlice :: "string list \<Rightarrow> int \<Rightarrow> 'ms"
  SetCell :: "'ms \<Rightarrow> int \<Rightarrow> int \<Rightarrow> string \<Rightarrow> 'ms"
  Shape :: "'ms \<Rightarrow> int \<times> int"
  ToStringSlice :: "'ms \<Rightarrow> string list"

section \<open>Package service\<close>

definition minRows :: int where
  "minRows = 10"

definition minCols :: int where
  "minCols = 10"

definition logCommitEntry :: SheetLogPickle where
  "logCommitEntry = \<lparr>Lid = 0, Row = - 1, Col = - 1, Old = [], New = []\<rparr>"

definition sheetGetPickledCheckPointFromDfs ::
  "'d dfs \<Rightarrow> gdocFS \<Rightarrow> 'd \<Rightarrow> nat \<Rightarrow> nat \<Rightarrow> error + SheetCheckPointPickle" where
  "sheetGetPickledCheckPointFromDfs ops g d fid cid =
     (case FileGetAll ops d (GetCheckPointPath g ''sheet'' fid cid) of
        Inl err \<Rightarrow> Inl err
      | Inr fileRaw \<Rightarrow> PickleSheetCheckPointFromContent g fileRaw)"

definition sheetGetPickledLogFromDfs ::
  "'d dfs \<Rightarrow> gdocFS \<Rightarrow> 'd \<Rightarrow> nat \<Rightarrow> nat \<Rightarrow> SheetLogPickle list \<times> error option" where
  "sheetGetPickledLogFromDfs ops g d fid lid =
     (case FileGetAll ops d (GetLogPath g ''sheet'' fid lid) of
        Inl err \<Rightarrow> ([], Some err)
      | Inr fileRaw \<Rightarrow> PickleSheetLogsFromContent g fileRaw)"

text \<open>
  \<^verbatim>\<open>SheetFSCheck\<close>. The function that lists a directory is an argument of
  \<open>SheetFSCheckWith\<close>, and \<open>SheetFSCheck\<close> is \<open>SheetFSCheckWith\<close> at the listing the source
  calls, \<^verbatim>\<open>dao.DirFilenamesAllSorted\<close>. The check only reads the store. The lengths of
  the listings are below \<open>2 ^ 63\<close>, so \<^verbatim>\<open>uint(expect + 1)\<close> and \<^verbatim>\<open>expectCid + 1\<close> do not
  wrap.
\<close>

fun logsInvalid :: "nat \<Rightarrow> SheetLogPickle list \<Rightarrow> bool" where
  "logsInvalid curLid [] = False"
| "logsInvalid curLid (log # logs) =
     (if Lid log \<noteq> curLid \<or> Row log \<le> 0 \<or> Col log \<le> 0 then True
      else logsInvalid curLid logs)"

text \<open>The body of the \<^verbatim>\<open>fullChk\<close> branch of the first loop, for the log \<open>curLid\<close>.\<close>

definition checkLogFile ::
  "'d dfs \<Rightarrow> gdocFS \<Rightarrow> 'd \<Rightarrow> nat \<Rightarrow> nat \<Rightarrow> nat \<Rightarrow> error option" where
  "checkLogFile ops g d fid curLid expectLid =
     (case sheetGetPickledLogFromDfs ops g d fid curLid of
        (logs, Some err) \<Rightarrow> Some SheetFSUnrecoverableErr
      | (logs, None) \<Rightarrow>
          (if logs = [] then Some (Panic ''index out of range'')
           else if last logs \<noteq> logCommitEntry then
             (if curLid = expectLid then
                (if logsInvalid curLid logs then Some SheetFSUnrecoverableErr else None)
              else Some SheetFSUnrecoverableErr)
           else None))"

fun checkLogNames ::
  "'d dfs \<Rightarrow> gdocFS \<Rightarrow> 'd \<Rightarrow> nat \<Rightarrow> bool \<Rightarrow> nat \<Rightarrow> nat \<Rightarrow> string list \<Rightarrow> error option" where
  "checkLogNames ops g d fid fullChk expectLid expect [] = None"
| "checkLogNames ops g d fid fullChk expectLid expect (actual # rest) =
     (if Itoa (int (expect + 1)) \<noteq> actual then Some SheetFSUnrecoverableErr
      else (case (if fullChk then checkLogFile ops g d fid (expect + 1) expectLid else None) of
              Some err \<Rightarrow> Some err
            | None \<Rightarrow> checkLogNames ops g d fid fullChk expectLid (expect + 1) rest))"

text \<open>The \<^verbatim>\<open>!fullChk\<close> block after the first loop.\<close>

definition checkLastLogBrief ::
  "'d dfs \<Rightarrow> gdocFS \<Rightarrow> 'd \<Rightarrow> nat \<Rightarrow> nat \<Rightarrow> error option" where
  "checkLastLogBrief ops g d fid expectLid =
     (case sheetGetPickledLogFromDfs ops g d fid expectLid of
        (logs, Some err) \<Rightarrow> Some SheetFSUnrecoverableErr
      | (logs, None) \<Rightarrow> (if logs = [] then Some (Panic ''index out of range'') else None))"

definition checkChkpFile :: "'d dfs \<Rightarrow> gdocFS \<Rightarrow> 'd \<Rightarrow> nat \<Rightarrow> nat \<Rightarrow> error option" where
  "checkChkpFile ops g d fid curCid =
     (case sheetGetPickledCheckPointFromDfs ops g d fid curCid of
        Inl err \<Rightarrow> Some SheetFSUnrecoverableErr
      | Inr chkp \<Rightarrow>
          (if Cid chkp \<noteq> curCid \<or> Rows chkp \<le> 0 \<or> Columns chkp \<le> 0
           then Some SheetFSUnrecoverableErr else None))"

fun checkChkpNames ::
  "'d dfs \<Rightarrow> gdocFS \<Rightarrow> 'd \<Rightarrow> nat \<Rightarrow> bool \<Rightarrow> nat \<Rightarrow> string list \<Rightarrow> error option" where
  "checkChkpNames ops g d fid fullChk expect [] = None"
| "checkChkpNames ops g d fid fullChk expect (actual # rest) =
     (if Itoa (int (expect + 1)) \<noteq> actual then Some SheetFSUnrecoverableErr
      else (case (if fullChk then checkChkpFile ops g d fid (expect + 1) else None) of
              Some err \<Rightarrow> Some err
            | None \<Rightarrow> checkChkpNames ops g d fid fullChk (expect + 1) rest))"

definition SheetFSCheckWith ::
  "('d \<Rightarrow> string \<Rightarrow> error + string list) \<Rightarrow> 'd dfs \<Rightarrow> gdocFS \<Rightarrow> 'd \<Rightarrow> nat \<Rightarrow> bool
     \<Rightarrow> error + nat \<times> nat" where
  "SheetFSCheckWith ls ops g d fid fullChk =
     (case ls d (GetLogRootPath g ''sheet'' fid) of
        Inl err \<Rightarrow> Inl err
      | Inr logFileNames \<Rightarrow>
          (case checkLogNames ops g d fid fullChk (length logFileNames) 0 logFileNames of
             Some err \<Rightarrow> Inl err
           | None \<Rightarrow>
               (case (if \<not> fullChk then checkLastLogBrief ops g d fid (length logFileNames)
                      else None) of
                  Some err \<Rightarrow> Inl err
                | None \<Rightarrow>
                    (case ls d (GetCheckPointRootPath g ''sheet'' fid) of
                       Inl err \<Rightarrow> Inl err
                     | Inr chkpFileNames \<Rightarrow>
                         (case checkChkpNames ops g d fid fullChk 0 chkpFileNames of
                            Some err \<Rightarrow> Inl err
                          | None \<Rightarrow>
                              (if length chkpFileNames + 1 \<noteq> length logFileNames
                               then Inl SheetFSUnrecoverableErr
                               else Inr (length chkpFileNames, length logFileNames)))))))"

definition SheetFSCheck :: "'d dfs \<Rightarrow> gdocFS \<Rightarrow> 'd \<Rightarrow> nat \<Rightarrow> bool \<Rightarrow> error + nat \<times> nat" where
  "SheetFSCheck ops g d fid fullChk =
     SheetFSCheckWith (DirFilenamesAllSorted ops) ops g d fid fullChk"

text \<open>
  \<^verbatim>\<open>appendOneSheetLog\<close>: a failed append is logged and the function returns; the store is
  what \<^verbatim>\<open>FileAppend\<close> left.
\<close>

definition appendOneSheetLog ::
  "'d dfs \<Rightarrow> gdocFS \<Rightarrow> 'd \<Rightarrow> nat \<Rightarrow> nat \<Rightarrow> SheetLogPickle \<Rightarrow> 'd option" where
  "appendOneSheetLog ops g d fid lid log =
     (case FileAppend ops d (GetLogPath g ''sheet'' fid lid) (MarshalSheetLog g log) of
        None \<Rightarrow> None
      | Some (err, d1) \<Rightarrow> Some d1)"

definition sheetWritePickledCheckPointToDfs ::
  "'d dfs \<Rightarrow> gdocFS \<Rightarrow> 'd \<Rightarrow> nat \<Rightarrow> nat \<Rightarrow> SheetCheckPointPickle \<Rightarrow> (error option \<times> 'd) option" where
  "sheetWritePickledCheckPointToDfs ops g d fid cid chkp =
     FileOverwriteAll ops d (GetCheckPointPath g ''sheet'' fid cid) (MarshalSheetCheckPoint g chkp)"

definition sheetCreatePickledCheckPointInDfs ::
  "'d dfs \<Rightarrow> gdocFS \<Rightarrow> 'd \<Rightarrow> nat \<Rightarrow> nat \<Rightarrow> SheetCheckPointPickle \<Rightarrow> (error option \<times> 'd) option" where
  "sheetCreatePickledCheckPointInDfs ops g d fid cid chkp =
     (case FileCreate ops d (GetCheckPointPath g ''sheet'' fid cid) 0 of
        None \<Rightarrow> None
      | Some (Some err, d1) \<Rightarrow> Some (Some err, d1)
      | Some (None, d1) \<Rightarrow> sheetWritePickledCheckPointToDfs ops g d1 fid cid chkp)"

definition sheetCreateLogFile ::
  "'d dfs \<Rightarrow> gdocFS \<Rightarrow> 'd \<Rightarrow> nat \<Rightarrow> nat \<Rightarrow> (error option \<times> 'd) option" where
  "sheetCreateLogFile ops g d fid lid = FileCreate ops d (GetLogPath g ''sheet'' fid lid) 0"

text \<open>
  \<^verbatim>\<open>sheetGetCheckPointNum\<close>, with the listing function as an argument as above. A
  listing error panics.
\<close>

definition sheetGetCheckPointNumWith ::
  "('d \<Rightarrow> string \<Rightarrow> error + string list) \<Rightarrow> gdocFS \<Rightarrow> 'd \<Rightarrow> nat \<Rightarrow> error + int" where
  "sheetGetCheckPointNumWith ls g d fid =
     (case ls d (GetCheckPointRootPath g ''sheet'' fid) of
        Inl err \<Rightarrow> Inl (Panic ''sheetGetCheckPointNum'')
      | Inr fileNames \<Rightarrow>
          (if length fileNames \<noteq> 0 then
             (case Atoi (splitDotHead (last fileNames)) of
                None \<Rightarrow> Inr (int (length fileNames))
              | Some chkpNum \<Rightarrow> Inr chkpNum)
           else Inr 0))"

definition sheetGetCheckPointNum :: "'d dfs \<Rightarrow> gdocFS \<Rightarrow> 'd \<Rightarrow> nat \<Rightarrow> error + int" where
  "sheetGetCheckPointNum ops g d fid = sheetGetCheckPointNumWith (DirFilenamesAllSorted ops) g d fid"

text \<open>
  \<^verbatim>\<open>commitOneSheetWithCache\<close>. \<open>now\<close> is the value of \<^verbatim>\<open>time.Now()\<close>
  (one value for all the commits of a call). The result is the
  returned cid, or the panic of \<^verbatim>\<open>sheetGetCheckPointNum\<close>, and the store the call leaves.
\<close>

definition commitOneSheetWithCacheWith ::
  "('d \<Rightarrow> string \<Rightarrow> error + string list) \<Rightarrow> 'd dfs \<Rightarrow> gdocFS \<Rightarrow> 'ms memSheetOps \<Rightarrow> nat
     \<Rightarrow> 'd \<Rightarrow> nat \<Rightarrow> 'ms \<Rightarrow> ((error + nat) \<times> 'd) option" where
  "commitOneSheetWithCacheWith ls ops g mo now d fid memSheet =
     (case sheetGetCheckPointNumWith ls g d fid of
        Inl err \<Rightarrow> Some (Inl err, d)
      | Inr chkpNum \<Rightarrow>
          (let curCid = uint chkpNum;
               lid = uadd curCid 1;
               (logs, err) = sheetGetPickledLogFromDfs ops g d fid lid
           in if err \<noteq> None \<and> length logs = 0 then Some (Inr curCid, d)
              else
                (let cid = uadd curCid 1;
                     (rows, cols) = Shape mo memSheet
                 in case sheetCreatePickledCheckPointInDfs ops g d fid cid
                           \<lparr>Cid = cid, Timestamp = now, Rows = rows, Columns = cols,
                            Content = ToStringSlice mo memSheet\<rparr> of
                      None \<Rightarrow> None
                    | Some (err1, d1) \<Rightarrow>
                        (case appendOneSheetLog ops g d1 fid lid logCommitEntry of
                           None \<Rightarrow> None
                         | Some d2 \<Rightarrow>
                             (case sheetCreateLogFile ops g d2 fid (uadd lid 1) of
                                None \<Rightarrow> None
                              | Some (err3, d3) \<Rightarrow> Some (Inr cid, d3))))))"

definition commitOneSheetWithCache ::
  "'d dfs \<Rightarrow> gdocFS \<Rightarrow> 'ms memSheetOps \<Rightarrow> nat \<Rightarrow> 'd \<Rightarrow> nat \<Rightarrow> 'ms \<Rightarrow> ((error + nat) \<times> 'd) option" where
  "commitOneSheetWithCache ops g mo now d fid memSheet =
     commitOneSheetWithCacheWith (DirFilenamesAllSorted ops) ops g mo now d fid memSheet"

text \<open>
  \<^verbatim>\<open>commitSheetsWithCache\<close>: one commit per index of \<^verbatim>\<open>fids\<close>; \<^verbatim>\<open>memSheets[ei]\<close> panics
  where \<^verbatim>\<open>memSheets\<close> is the shorter slice.
\<close>

fun commitSheetsWithCacheWith ::
  "('d \<Rightarrow> string \<Rightarrow> error + string list) \<Rightarrow> 'd dfs \<Rightarrow> gdocFS \<Rightarrow> 'ms memSheetOps \<Rightarrow> nat
     \<Rightarrow> 'd \<Rightarrow> nat list \<Rightarrow> 'ms list \<Rightarrow> (error option \<times> 'd) option" where
  "commitSheetsWithCacheWith ls ops g mo now d [] memSheets = Some (None, d)"
| "commitSheetsWithCacheWith ls ops g mo now d (fid # fids) [] =
     Some (Some (Panic ''index out of range''), d)"
| "commitSheetsWithCacheWith ls ops g mo now d (fid # fids) (memSheet # memSheets) =
     (case commitOneSheetWithCacheWith ls ops g mo now d fid memSheet of
        None \<Rightarrow> None
      | Some (Inl err, d1) \<Rightarrow> Some (Some err, d1)
      | Some (Inr cid, d1) \<Rightarrow> commitSheetsWithCacheWith ls ops g mo now d1 fids memSheets)"

text \<open>
  \<^verbatim>\<open>recoverSheetFromLog\<close>. The redo loop runs over the indices below \<^verbatim>\<open>len(logs) - 1\<close>.
  \<open>add\<close> is \<^verbatim>\<open>getSheetCache().Add\<close> on a cache of type \<open>'c\<close>: it returns the sheet (or
  nil), the evicted keys and the evicted sheets, and the cache it leaves. The result is
  the pair \<^verbatim>\<open>(memSheet, inCache)\<close>, or a panic, with the store and the cache.
\<close>

function redoLogs :: "'ms memSheetOps \<Rightarrow> 'ms \<Rightarrow> SheetLogPickle list \<Rightarrow> nat \<Rightarrow> 'ms" where
  "redoLogs mo memSheet logs li =
     (if int li < int (length logs) - 1
      then redoLogs mo (SetCell mo memSheet (Row (logs ! li)) (Col (logs ! li)) (New (logs ! li)))
             logs (li + 1)
      else memSheet)"
  by pat_completeness auto
termination
  by (relation "measure (\<lambda>(mo, memSheet, logs, li). length logs - li)") auto

declare redoLogs.simps [simp del]

text \<open>The first part of the function, up to the end of the redo loop: the sheet it builds.\<close>

definition rebuildSheetWith ::
  "('d \<Rightarrow> string \<Rightarrow> error + string list) \<Rightarrow> 'd dfs \<Rightarrow> gdocFS \<Rightarrow> 'ms memSheetOps
     \<Rightarrow> 'd \<Rightarrow> nat \<Rightarrow> error + 'ms option" where
  "rebuildSheetWith ls ops g mo d fid =
     (case sheetGetCheckPointNumWith ls g d fid of
        Inl err \<Rightarrow> Inl err
      | Inr chkpNum \<Rightarrow>
          (let curCid = uint chkpNum in
           case (if curCid = 0 then Inr (NewMemSheet mo minRows minCols)
                 else (case sheetGetPickledCheckPointFromDfs ops g d fid curCid of
                         Inl err \<Rightarrow> Inl err
                       | Inr chkp \<Rightarrow>
                           Inr (NewMemSheetFromStringSlice mo (Content chkp) (Columns chkp)))) of
             Inl err \<Rightarrow> Inr None
           | Inr memSheet \<Rightarrow>
               (case sheetGetPickledLogFromDfs ops g d fid (uadd curCid 1) of
                  (logs, Some err) \<Rightarrow> Inr None
                | (logs, None) \<Rightarrow> Inr (Some (redoLogs mo memSheet logs 0)))))"

text \<open>The whole function: the sheet is built, then admitted into the cache.\<close>

definition recoverSheetFromLogWith ::
  "('d \<Rightarrow> string \<Rightarrow> error + string list) \<Rightarrow> 'd dfs \<Rightarrow> gdocFS \<Rightarrow> 'ms memSheetOps
     \<Rightarrow> ('c \<Rightarrow> nat \<Rightarrow> 'ms \<Rightarrow> ('ms option \<times> nat list \<times> 'ms list) \<times> 'c) \<Rightarrow> nat
     \<Rightarrow> 'd \<Rightarrow> 'c \<Rightarrow> nat \<Rightarrow> ((error + 'ms option \<times> bool) \<times> 'd \<times> 'c) option" where
  "recoverSheetFromLogWith ls ops g mo add now d c fid =
     (case rebuildSheetWith ls ops g mo d fid of
        Inl err \<Rightarrow> Some (Inl err, d, c)
      | Inr None \<Rightarrow> Some (Inr (None, False), d, c)
      | Inr (Some memSheet) \<Rightarrow>
          (case add c fid memSheet of
             ((Some ms, keys, evicted), c1) \<Rightarrow>
               (case commitSheetsWithCacheWith ls ops g mo now d keys evicted of
                  None \<Rightarrow> None
                | Some (Some err, d1) \<Rightarrow> Some (Inl err, d1, c1)
                | Some (None, d1) \<Rightarrow> Some (Inr (Some ms, True), d1, c1))
           | ((None, keys, evicted), c1) \<Rightarrow> Some (Inr (Some memSheet, False), d, c1)))"

definition recoverSheetFromLog ::
  "'d dfs \<Rightarrow> gdocFS \<Rightarrow> 'ms memSheetOps
     \<Rightarrow> ('c \<Rightarrow> nat \<Rightarrow> 'ms \<Rightarrow> ('ms option \<times> nat list \<times> 'ms list) \<times> 'c) \<Rightarrow> nat
     \<Rightarrow> 'd \<Rightarrow> 'c \<Rightarrow> nat \<Rightarrow> ((error + 'ms option \<times> bool) \<times> 'd \<times> 'c) option" where
  "recoverSheetFromLog ops g mo add now d c fid =
     recoverSheetFromLogWith (DirFilenamesAllSorted ops) ops g mo add now d c fid"

section \<open>Instances of the parameters\<close>

text \<open>
  The functions above are defined for every store, codec and sheet type. To run them on
  concrete documents, this section gives one instance of each parameter: a store held in
  memory, a codec that writes one entry per \<open>;\<close>-terminated line, sheets as row-major
  grids, and the cache of the specification.
\<close>

subsection \<open>A store in memory\<close>

text \<open>
  Modelled from the spec: package \<^verbatim>\<open>backend/dfs\<close>, which is not among the sources
  (sections 4.1 and 4.3.4: create, stat, open, read, write, truncate and list, with
  exclusive creation and writes that may be short).
  Directories are a list of paths, files a list of paths with their bytes in creation
  order; a descriptor is the position of the file in that list. \<open>Create\<close> is exclusive
  and fails in a directory that is missing or read-only. \<open>Write\<close> writes at most
  \<open>chunk\<close> bytes of the buffer it is handed, a prefix of it, at the offset.
\<close>

record memStore =
  dirs :: "string list"
  readOnly :: "string list"
  files :: "(string \<times> string) list"
  chunk :: nat

definition memParent :: "string \<Rightarrow> string" where
  "memParent path = rev (drop 1 (dropWhile (\<lambda>c. c \<noteq> CHR ''/'') (rev path)))"

definition memBase :: "string \<Rightarrow> string" where
  "memBase path = rev (takeWhile (\<lambda>c. c \<noteq> CHR ''/'') (rev path))"

fun memIndex :: "string \<Rightarrow> (string \<times> string) list \<Rightarrow> nat option" where
  "memIndex path [] = None"
| "memIndex path ((p, c) # fs) =
     (if p = path then Some 0 else map_option Suc (memIndex path fs))"

definition memInfo :: "string \<times> string \<Rightarrow> FileInfo" where
  "memInfo f = \<lparr>Name = memBase (fst f), IsDir = False, Size = int (length (snd f))\<rparr>"

definition memValidFd :: "memStore \<Rightarrow> int \<Rightarrow> bool" where
  "memValidFd d fd = (0 \<le> fd \<and> nat fd < length (files d))"

definition memCreate :: "memStore \<Rightarrow> string \<Rightarrow> (error + int) \<times> memStore" where
  "memCreate d path =
     (if path \<in> set (dirs d) \<or> path \<in> set (map fst (files d))
      then (Inl (DfsError ''file exists''), d)
      else if memParent path \<in> set (readOnly d)
      then (Inl (DfsError ''permission denied''), d)
      else if memParent path \<in> set (dirs d)
      then (Inr (int (length (files d))), d\<lparr>files := files d @ [(path, [])]\<rparr>)
      else (Inl (DfsError ''no such directory''), d))"

definition memStat :: "memStore \<Rightarrow> string \<Rightarrow> error + FileInfo" where
  "memStat d path =
     (if path \<in> set (dirs d) then Inr \<lparr>Name = memBase path, IsDir = True, Size = 0\<rparr>
      else (case memIndex path (files d) of
              None \<Rightarrow> Inl (DfsError ''no such file'')
            | Some i \<Rightarrow> Inr (memInfo (files d ! i))))"

definition memOpen :: "memStore \<Rightarrow> string \<Rightarrow> error + int" where
  "memOpen d path =
     (case memIndex path (files d) of
        None \<Rightarrow> Inl (DfsError ''no such file'')
      | Some i \<Rightarrow> Inr (int i))"

definition memRead :: "memStore \<Rightarrow> int \<Rightarrow> int \<Rightarrow> int \<Rightarrow> error + string" where
  "memRead d fd off len =
     (if memValidFd d fd then Inr (take (nat len) (drop (nat off) (snd (files d ! nat fd))))
      else Inl (DfsError ''bad descriptor''))"

definition memWrite :: "memStore \<Rightarrow> int \<Rightarrow> int \<Rightarrow> string \<Rightarrow> (error + nat) \<times> memStore" where
  "memWrite d fd off buf =
     (if memValidFd d fd \<and> 0 \<le> off \<and> nat off \<le> length (snd (files d ! nat fd)) then
        (let (p, c) = files d ! nat fd;
             n = min (chunk d) (length buf)
         in (Inr n, d\<lparr>files := (files d)[nat fd := (p, take (nat off) c @ take n buf @ drop (nat off + n) c)]\<rparr>))
      else (Inl (DfsError ''bad write''), d))"

definition memTruncate :: "memStore \<Rightarrow> int \<Rightarrow> int \<Rightarrow> error option \<times> memStore" where
  "memTruncate d fd newSize =
     (if memValidFd d fd then
        (let (p, c) = files d ! nat fd
         in (None, d\<lparr>files := (files d)[nat fd := (p, take (nat newSize) c)]\<rparr>))
      else (Some (DfsError ''bad descriptor''), d))"

definition memScan :: "memStore \<Rightarrow> string \<Rightarrow> error + FileInfo list" where
  "memScan d path =
     (if path \<in> set (dirs d)
      then Inr (map memInfo (filter (\<lambda>f. memParent (fst f) = path) (files d)))
      else Inl (DfsError ''no such directory''))"

definition memDfs :: "memStore dfs" where
  "memDfs = \<lparr>Create = memCreate, Stat = memStat, Open = memOpen, Read = memRead,
             Write = memWrite, Truncate = memTruncate, Close = (\<lambda>d fd. None), Scan = memScan\<rparr>"



subsection \<open>A line codec and the document layout\<close>

text \<open>
  Modelled from the spec: the path functions and decoders of package \<^verbatim>\<open>backend/lib/gdocFS\<close>
  and the encoder, which are not among the sources (sections 3, 4.2 and 6: a
  self-delimited encoding, one record after the other, decoded in append order). The
  fields are separated by commas instead of written as JSON.
  A log entry is the line \<open>lid,row,col,old,new;\<close>, a checkpoint the line
  \<open>cid,timestamp,rows,columns;\<close> followed by one line per cell. An empty file decodes
  to no entries and no error; a file that does not end in \<open>;\<close> has a torn last entry,
  which is an error. The paths are those of the specification,
  \<open>sheet/fid/log/k\<close> and \<open>sheet/fid/checkpoint/k\<close>.
\<close>

fun splitOn :: "char \<Rightarrow> string \<Rightarrow> string list" where
  "splitOn sep [] = [[]]"
| "splitOn sep (c # cs) =
     (case splitOn sep cs of
        [] \<Rightarrow> [[c]]
      | w # ws \<Rightarrow> (if c = sep then [] # w # ws else (c # w) # ws))"

definition entriesOf :: "string \<Rightarrow> string list" where
  "entriesOf content = butlast (splitOn (CHR '';'') content)"

definition lineLog :: "string \<Rightarrow> error + SheetLogPickle" where
  "lineLog line =
     (case splitOn (CHR '','') line of
        [l, r, c, old, new] \<Rightarrow>
          (case (Atoi l, Atoi r, Atoi c) of
             (Some lv, Some rv, Some cv) \<Rightarrow>
               (if lv < 0 then Inl (PickleError ''bad log entry'')
                else Inr \<lparr>Lid = nat lv, Row = rv, Col = cv, Old = old, New = new\<rparr>)
           | _ \<Rightarrow> Inl (PickleError ''bad log entry''))
      | _ \<Rightarrow> Inl (PickleError ''bad log entry''))"

fun lineLogs :: "string list \<Rightarrow> SheetLogPickle list \<times> error option" where
  "lineLogs [] = ([], None)"
| "lineLogs (line # rest) =
     (case lineLog line of
        Inl err \<Rightarrow> ([], Some err)
      | Inr log \<Rightarrow> (case lineLogs rest of (logs, err) \<Rightarrow> (log # logs, err)))"

definition linePickleLogs :: "string \<Rightarrow> SheetLogPickle list \<times> error option" where
  "linePickleLogs content =
     (if content \<noteq> [] \<and> last content \<noteq> CHR '';'' then
        (fst (lineLogs (entriesOf content)), Some (PickleError ''torn log entry''))
      else lineLogs (entriesOf content))"

definition lineMarshalLog :: "SheetLogPickle \<Rightarrow> string" where
  "lineMarshalLog log =
     Itoa (int (Lid log)) @ '','' @ Itoa (Row log) @ '','' @ Itoa (Col log) @ '','' @ Old log
       @ '','' @ New log @ '';''"

definition linePickleCheckPoint :: "string \<Rightarrow> error + SheetCheckPointPickle" where
  "linePickleCheckPoint content =
     (case entriesOf content of
        [] \<Rightarrow> Inl (PickleError ''bad checkpoint'')
      | header # cells \<Rightarrow>
          (case map Atoi (splitOn (CHR '','') header) of
             [Some cv, Some tv, Some rv, Some kv] \<Rightarrow>
               (if cv < 0 \<or> tv < 0 then Inl (PickleError ''bad checkpoint'')
                else Inr \<lparr>Cid = nat cv, Timestamp = nat tv, Rows = rv, Columns = kv,
                          Content = cells\<rparr>)
           | _ \<Rightarrow> Inl (PickleError ''bad checkpoint'')))"

definition lineMarshalCheckPoint :: "SheetCheckPointPickle \<Rightarrow> string" where
  "lineMarshalCheckPoint chkp =
     Itoa (int (Cid chkp)) @ '','' @ Itoa (int (Timestamp chkp)) @ '','' @ Itoa (Rows chkp)
       @ '','' @ Itoa (Columns chkp) @ '';'' @ concat (map (\<lambda>cell. cell @ '';'') (Content chkp))"

definition lineFS :: gdocFS where
  "lineFS =
     \<lparr>GetLogRootPath = (\<lambda>ns fid. ns @ ''/'' @ Itoa (int fid) @ ''/log''),
      GetCheckPointRootPath = (\<lambda>ns fid. ns @ ''/'' @ Itoa (int fid) @ ''/checkpoint''),
      GetLogPath = (\<lambda>ns fid lid. ns @ ''/'' @ Itoa (int fid) @ ''/log/'' @ Itoa (int lid)),
      GetCheckPointPath =
        (\<lambda>ns fid cid. ns @ ''/'' @ Itoa (int fid) @ ''/checkpoint/'' @ Itoa (int cid)),
      PickleSheetLogsFromContent = linePickleLogs,
      PickleSheetCheckPointFromContent = linePickleCheckPoint,
      MarshalSheetLog = lineMarshalLog,
      MarshalSheetCheckPoint = lineMarshalCheckPoint\<rparr>"

subsection \<open>Grid sheets\<close>

text \<open>
  Modelled from the spec: \<^verbatim>\<open>MemSheet\<close> of package \<^verbatim>\<open>backend/lib/cache\<close>, which is not among
  the sources (section 3: a grid of string cells indexed from 1, materialized row-major).
  A sheet is its column count and its cells in row-major order; a cell outside the grid
  is not set (the grid does not grow).
\<close>

record gridSheet =
  gridCols :: int
  gridCells :: "string list"

definition gridSet :: "gridSheet \<Rightarrow> int \<Rightarrow> int \<Rightarrow> string \<Rightarrow> gridSheet" where
  "gridSet s row col v =
     (if 1 \<le> row \<and> 1 \<le> col \<and> col \<le> gridCols s
         \<and> nat ((row - 1) * gridCols s + (col - 1)) < length (gridCells s)
      then s\<lparr>gridCells := (gridCells s)[nat ((row - 1) * gridCols s + (col - 1)) := v]\<rparr>
      else s)"

definition gridOps :: "gridSheet memSheetOps" where
  "gridOps =
     \<lparr>NewMemSheet = (\<lambda>rows cols. \<lparr>gridCols = cols, gridCells = replicate (nat (rows * cols)) []\<rparr>),
      NewMemSheetFromStringSlice = (\<lambda>content cols. \<lparr>gridCols = cols, gridCells = content\<rparr>),
      SetCell = gridSet,
      Shape = (\<lambda>s. (if gridCols s = 0 then 0 else int (length (gridCells s)) div gridCols s,
                     gridCols s)),
      ToStringSlice = gridCells\<rparr>"

subsection \<open>The sheet cache\<close>

text \<open>
  Modelled from the spec: \<^verbatim>\<open>SheetCache.Add\<close> of package \<^verbatim>\<open>backend/lib/cache\<close>, which is not
  among the sources. Section 4.4: if \<open>fid\<close> is already present, return its existing sheet in
  \<open>existing\<close> and drop the caller's copy; otherwise insert and, if capacity is exceeded,
  select cold entries for eviction and return them to the caller. The entries are kept
  most recent first, and the coldest are evicted.
\<close>

record 'ms sheetCache =
  capacity :: nat
  entries :: "(nat \<times> 'ms) list"

definition cacheAdd ::
  "'ms sheetCache \<Rightarrow> nat \<Rightarrow> 'ms \<Rightarrow> ('ms option \<times> nat list \<times> 'ms list) \<times> 'ms sheetCache" where
  "cacheAdd c fid sheet =
     (case map_of (entries c) fid of
        Some existing \<Rightarrow> ((Some existing, [], []), c)
      | None \<Rightarrow>
          ((None, map fst (drop (capacity c) ((fid, sheet) # entries c)),
                  map snd (drop (capacity c) ((fid, sheet) # entries c))),
           c\<lparr>entries := take (capacity c) ((fid, sheet) # entries c)\<rparr>))"

subsection \<open>Documents\<close>

text \<open>The store that holds document 1 with the given files.\<close>

definition doc1 :: "(string \<times> string) list \<Rightarrow> memStore" where
  "doc1 fs = \<lparr>dirs = [''sheet/1/log'', ''sheet/1/checkpoint''], readOnly = [], files = fs, chunk = 4096\<rparr>"

text \<open>
  \<open>unsealedDoc\<close>: no checkpoint, and \<open>log/1\<close> holds one mutation and no commit marker.
\<close>

definition unsealedDoc :: memStore where
  "unsealedDoc = doc1 [(''sheet/1/log/1'', ''1,1,1,,A;'')]"

text \<open>
  \<open>transientDoc\<close>: \<open>checkpoint/1\<close> is written and \<open>log/1\<close> is sealed, but \<open>log/2\<close> has not
  been created (a commit that stopped before its last step).
\<close>

definition transientDoc :: memStore where
  "transientDoc =
     doc1 [(''sheet/1/log/1'', ''1,1,1,,A;0,-1,-1,,;''), (''sheet/1/checkpoint/1'', ''1,0,1,1;A;'')]"

text \<open>\<open>freshDoc\<close>: a new document, no checkpoint and an empty \<open>log/1\<close>.\<close>

definition freshDoc :: memStore where
  "freshDoc = doc1 [(''sheet/1/log/1'', [])]"

text \<open>
  \<open>twoDocs\<close>: document 7 with one logged mutation and no checkpoint, and the new
  document 9.
\<close>

definition twoDocs :: memStore where
  "twoDocs =
     \<lparr>dirs = [''sheet/7/log'', ''sheet/7/checkpoint'', ''sheet/9/log'', ''sheet/9/checkpoint''],
      readOnly = [],
      files = [(''sheet/7/log/1'', ''1,1,1,,A;''), (''sheet/9/log/1'', [])],
      chunk = 4096\<rparr>"

text \<open>
  \<open>recoverDoc\<close>: \<open>checkpoint/1\<close> is the 1 by 2 sheet \<open>a b\<close>, and the sealed \<open>log/2\<close> sets
  cell (1, 2) to \<open>B\<close> and then cell (1, 1) to \<open>C\<close>.
\<close>

definition recoverDoc :: memStore where
  "recoverDoc =
     doc1 [(''sheet/1/log/1'', ''1,1,1,,a;0,-1,-1,,;''), (''sheet/1/checkpoint/1'', ''1,0,1,2;a;b;''),
           (''sheet/1/log/2'', ''2,1,2,b,B;2,1,1,a,C;0,-1,-1,,;'')]"

text \<open>
  \<open>badSealedDoc\<close>: no checkpoint, and \<open>log/1\<close> is sealed but its mutation has
  \<open>lid = 7\<close>, \<open>row = 0\<close> and \<open>col = 0\<close>.
\<close>

definition badSealedDoc :: memStore where
  "badSealedDoc = doc1 [(''sheet/1/log/1'', ''7,0,0,,A;0,-1,-1,,;'')]"

text \<open>
  \<open>tenLogs\<close>: the dense layout with ten sealed logs and nine checkpoints; \<open>nineLogs\<close>: the
  dense layout with nine sealed logs and eight checkpoints.
\<close>

definition tenLogs :: memStore where
  "tenLogs = doc1
     [(''sheet/1/log/1'', ''0,-1,-1,,;''), (''sheet/1/log/2'', ''0,-1,-1,,;''),
      (''sheet/1/log/3'', ''0,-1,-1,,;''), (''sheet/1/log/4'', ''0,-1,-1,,;''),
      (''sheet/1/log/5'', ''0,-1,-1,,;''), (''sheet/1/log/6'', ''0,-1,-1,,;''),
      (''sheet/1/log/7'', ''0,-1,-1,,;''), (''sheet/1/log/8'', ''0,-1,-1,,;''),
      (''sheet/1/log/9'', ''0,-1,-1,,;''), (''sheet/1/log/10'', ''0,-1,-1,,;''),
      (''sheet/1/checkpoint/1'', ''1,0,1,1;A;''), (''sheet/1/checkpoint/2'', ''2,0,1,1;A;''),
      (''sheet/1/checkpoint/3'', ''3,0,1,1;A;''), (''sheet/1/checkpoint/4'', ''4,0,1,1;A;''),
      (''sheet/1/checkpoint/5'', ''5,0,1,1;A;''), (''sheet/1/checkpoint/6'', ''6,0,1,1;A;''),
      (''sheet/1/checkpoint/7'', ''7,0,1,1;A;''), (''sheet/1/checkpoint/8'', ''8,0,1,1;A;''),
      (''sheet/1/checkpoint/9'', ''9,0,1,1;A;'')]"

definition nineLogs :: memStore where
  "nineLogs = doc1
     [(''sheet/1/log/1'', ''0,-1,-1,,;''), (''sheet/1/log/2'', ''0,-1,-1,,;''),
      (''sheet/1/log/3'', ''0,-1,-1,,;''), (''sheet/1/log/4'', ''0,-1,-1,,;''),
      (''sheet/1/log/5'', ''0,-1,-1,,;''), (''sheet/1/log/6'', ''0,-1,-1,,;''),
      (''sheet/1/log/7'', ''0,-1,-1,,;''), (''sheet/1/log/8'', ''0,-1,-1,,;''),
      (''sheet/1/log/9'', ''0,-1,-1,,;''),
      (''sheet/1/checkpoint/1'', ''1,0,1,1;A;''), (''sheet/1/checkpoint/2'', ''2,0,1,1;A;''),
      (''sheet/1/checkpoint/3'', ''3,0,1,1;A;''), (''sheet/1/checkpoint/4'', ''4,0,1,1;A;''),
      (''sheet/1/checkpoint/5'', ''5,0,1,1;A;''), (''sheet/1/checkpoint/6'', ''6,0,1,1;A;''),
      (''sheet/1/checkpoint/7'', ''7,0,1,1;A;''), (''sheet/1/checkpoint/8'', ''8,0,1,1;A;'')]"

text \<open>
  \<open>shortWriteStore\<close>: the file \<open>d/f\<close> holds \<open>x\<close>, and every \<open>Write\<close> writes one byte.
\<close>

definition shortWriteStore :: memStore where
  "shortWriteStore = \<lparr>dirs = [''d''], readOnly = [], files = [(''d/f'', ''x'')], chunk = 1\<rparr>"

text \<open>
  \<open>readOnlyDoc\<close>: one checkpoint, the active \<open>log/2\<close> holds one mutation, and nothing can
  be created in the checkpoint directory.
\<close>

definition readOnlyDoc :: memStore where
  "readOnlyDoc =
     \<lparr>dirs = [''sheet/1/log'', ''sheet/1/checkpoint''], readOnly = [''sheet/1/checkpoint''],
      files = [(''sheet/1/log/1'', ''1,1,1,,A;0,-1,-1,,;''), (''sheet/1/checkpoint/1'', ''1,0,1,1;A;''),
               (''sheet/1/log/2'', ''2,1,1,A,B;'')],
      chunk = 4096\<rparr>"

text \<open>
  Three more stores in memory, which differ from \<open>memDfs\<close> in \<open>Write\<close> only: on
  \<open>fullDiskDfs\<close> every \<open>Write\<close> fails, on \<open>stalledDfs\<close> every \<open>Write\<close> succeeds and writes
  nothing, and \<open>progressDfs\<close> fails instead of writing nothing.
\<close>

definition fullDiskDfs :: "memStore dfs" where
  "fullDiskDfs = memDfs\<lparr>Write := (\<lambda>d fd off buf. (Inl (DfsError ''disk full''), d))\<rparr>"

definition stalledDfs :: "memStore dfs" where
  "stalledDfs = memDfs\<lparr>Write := (\<lambda>d fd off buf. (Inr 0, d))\<rparr>"

definition progressDfs :: "memStore dfs" where
  "progressDfs = memDfs\<lparr>Write := (\<lambda>d fd off buf.
       if chunk d = 0 then (Inl (DfsError ''stalled''), d) else memWrite d fd off buf)\<rparr>"

section \<open>The directory listing\<close>

text \<open>
  C9. The claim: \<^verbatim>\<open>DirFileNamesAll\<close> (and hence \<^verbatim>\<open>DirFilenamesAllSorted\<close>) returns one
  name per entry of the fetched listing. The code: its loop runs while
  \<^verbatim>\<open>i < len(filenames)\<close>, and \<^verbatim>\<open>filenames\<close> starts empty, so for every store and every
  directory whose \<open>Scan\<close> succeeds both functions return no name at all.
\<close>

theorem DirFileNamesAll_returns_no_names:
  "DirFileNamesAll ops d path =
     (case Scan ops d path of Inl err \<Rightarrow> Inl err | Inr fileInfos \<Rightarrow> Inr [])
   \<and> DirFilenamesAllSorted ops d path =
     (case Scan ops d path of Inl err \<Rightarrow> Inl err | Inr fileInfos \<Rightarrow> Inr [])"
  by (simp add: DirFilenamesAllSorted_def DirFileNamesAll_def dirNamesLoop.simps sortStrings_def
      split: sum.splits)

text \<open>
  On the directory \<open>sheet/1/log\<close> of \<open>unsealedDoc\<close>, which holds the file \<open>1\<close>, the source
  lists nothing and the listing of the specification lists \<open>1\<close>.
\<close>

lemma DirFileNamesAll_differs_from_spec:
  "DirFileNamesAll memDfs unsealedDoc ''sheet/1/log'' = Inr []
   \<and> DirFileNamesAll_spec memDfs unsealedDoc ''sheet/1/log'' = Inr [''1'']"
  by code_simp

text \<open>Whatever the directory holds, a listing that succeeds is empty.\<close>

lemma DirFilenamesAllSorted_lists_nothing:
  "DirFilenamesAllSorted ops d path = Inr names \<Longrightarrow> names = []"
  by (auto simp: DirFilenamesAllSorted_def DirFileNamesAll_def dirNamesLoop.simps sortStrings_def
      split: sum.splits)

section \<open>Appending to a file\<close>

text \<open>
  C8. The claim: when \<^verbatim>\<open>dfs.Write\<close> writes only a positive prefix of the bytes handed to
  it, \<^verbatim>\<open>FileAppend\<close> still appends exactly the bytes of the content, in order and once. The
  code: after a short write the loop hands \<^verbatim>\<open>content[:toWrite]\<close>, the head of the content
  again, instead of the bytes that remain. On \<open>shortWriteStore\<close>, where a \<open>Write\<close> writes
  one byte, appending \<open>ab\<close> to the file \<open>x\<close> returns without error and leaves \<open>xaa\<close>.
\<close>

theorem FileAppend_short_write_repeats_head:
  "FileAppend memDfs shortWriteStore ''d/f'' ''ab''
     = Some (None, shortWriteStore\<lparr>files := [(''d/f'', ''xaa'')]\<rparr>)"
  by code_simp

text \<open>Where one \<open>Write\<close> takes the whole buffer, the same call appends \<open>ab\<close>.\<close>

lemma FileAppend_whole_write:
  "FileAppend memDfs (shortWriteStore\<lparr>chunk := 2\<rparr>) ''d/f'' ''ab''
     = Some (None, shortWriteStore\<lparr>chunk := 2, files := [(''d/f'', ''xab'')]\<rparr>)"
  by code_simp

text \<open>
  The write loop returns whenever every \<open>Write\<close> of a non-empty buffer that succeeds
  writes at least one byte.
\<close>

lemma writeAllLoop_returns:
  assumes progress: "\<And>d fd off buf n d'. buf \<noteq> [] \<Longrightarrow> Write ops d fd off buf = (Inr n, d') \<Longrightarrow> 0 < n"
    and bound: "toWrite \<le> int (length content)"
  shows "\<exists>r. writeAllLoop ops fd content d off toWrite = Some r"
  using bound
proof (induction "nat toWrite" arbitrary: toWrite d off rule: less_induct)
  case less
  show ?case
  proof (cases "toWrite > 0")
    case False
    then show ?thesis by (subst writeAllLoop.simps) simp
  next
    case True
    then have nonempty: "take (nat toWrite) content \<noteq> []"
      using less.prems by auto
    obtain res d' where w: "Write ops d fd off (take (nat toWrite) content) = (res, d')"
      by (cases "Write ops d fd off (take (nat toWrite) content)") auto
    show ?thesis
    proof (cases res)
      case (Inl err)
      then show ?thesis using True w by (subst writeAllLoop.simps) simp
    next
      case (Inr n)
      then have "0 < n" using progress [OF nonempty] w by simp
      then have "nat (toWrite - int n) < nat toWrite" using True by linarith
      moreover have "toWrite - int n \<le> int (length content)" using less.prems by simp
      ultimately obtain r where
        "writeAllLoop ops fd content d' (off + int n) (toWrite - int n) = Some r"
        using less.hyps by blast
      then show ?thesis using True w Inr by (subst writeAllLoop.simps) simp
    qed
  qed
qed

lemma FileAppend_returns:
  assumes "\<And>d fd off buf n d'. buf \<noteq> [] \<Longrightarrow> Write ops d fd off buf = (Inr n, d') \<Longrightarrow> 0 < n"
  shows "\<exists>r. FileAppend ops d path content = Some r"
proof (cases "Stat ops d path")
  case (Inl err)
  then show ?thesis by (simp add: FileAppend_def)
next
  case info: (Inr fileInfo)
  show ?thesis
  proof (cases "Open ops d path")
    case (Inl err)
    then show ?thesis using info by (simp add: FileAppend_def)
  next
    case (Inr fd)
    have "\<exists>r. writeAll ops d fd (Size fileInfo) content = Some r"
      unfolding writeAll_def using assms by (rule writeAllLoop_returns) simp_all
    then obtain err d1 where "writeAll ops d fd (Size fileInfo) content = Some (err, d1)"
      by auto
    then show ?thesis
      using info Inr by (cases err) (simp_all add: FileAppend_def)
  qed
qed

section \<open>The consistency check\<close>

text \<open>The errors of the check's parts: Unrecoverable, or the panic of indexing an empty log.\<close>

lemma checkLogFile_errors:
  "checkLogFile ops g d fid curLid expectLid = Some err \<Longrightarrow>
     err = SheetFSUnrecoverableErr \<or> err = Panic ''index out of range''"
  by (auto simp: checkLogFile_def split: prod.splits option.splits if_splits)

lemma checkLogNames_errors:
  "checkLogNames ops g d fid fullChk expectLid expect names = Some err \<Longrightarrow>
     err = SheetFSUnrecoverableErr \<or> err = Panic ''index out of range''"
proof (induction names arbitrary: expect)
  case Nil
  then show ?case by simp
next
  case (Cons actual rest)
  then show ?case
    by (auto split: if_splits option.splits dest: checkLogFile_errors)
qed

lemma checkLastLogBrief_errors:
  "checkLastLogBrief ops g d fid expectLid = Some err \<Longrightarrow>
     err = SheetFSUnrecoverableErr \<or> err = Panic ''index out of range''"
  by (auto simp: checkLastLogBrief_def split: prod.splits option.splits if_splits)

lemma checkChkpFile_errors:
  "checkChkpFile ops g d fid curCid = Some err \<Longrightarrow> err = SheetFSUnrecoverableErr"
  by (auto simp: checkChkpFile_def split: sum.splits if_splits)

lemma checkChkpNames_errors:
  "checkChkpNames ops g d fid fullChk expect names = Some err \<Longrightarrow> err = SheetFSUnrecoverableErr"
proof (induction names arbitrary: expect)
  case Nil
  then show ?case by simp
next
  case (Cons actual rest)
  then show ?case
    by (auto split: if_splits option.splits dest: checkChkpFile_errors)
qed

text \<open>
  The brief check of the last log does not look at its last entry, and the thorough check
  of a log that ends in the commit marker does not look at its other entries.
\<close>

lemma checkLastLogBrief_ignores_last_entry:
  "sheetGetPickledLogFromDfs ops g d fid expectLid = (logs, None) \<Longrightarrow> logs \<noteq> [] \<Longrightarrow>
     checkLastLogBrief ops g d fid expectLid = None"
  by (simp add: checkLastLogBrief_def)

lemma checkLogFile_accepts_sealed:
  "sheetGetPickledLogFromDfs ops g d fid curLid = (muts @ [logCommitEntry], None) \<Longrightarrow>
     checkLogFile ops g d fid curLid expectLid = None"
  by (simp add: checkLogFile_def)

text \<open>
  With the listing of the source every directory looks empty, so the check counts
  L = 0 and C = 0 and never returns a pair.
\<close>

lemma SheetFSCheck_never_returns_a_pair:
  "SheetFSCheck ops g d fid fullChk \<noteq> Inr p"
proof (cases "DirFilenamesAllSorted ops d (GetLogRootPath g ''sheet'' fid)")
  case (Inl err)
  then show ?thesis by (simp add: SheetFSCheck_def SheetFSCheckWith_def)
next
  case logs: (Inr logFileNames)
  then have noLogs: "logFileNames = []" by (rule DirFilenamesAllSorted_lists_nothing)
  show ?thesis
  proof (cases "DirFilenamesAllSorted ops d (GetCheckPointRootPath g ''sheet'' fid)")
    case (Inl err)
    then show ?thesis
      using logs noLogs
      by (simp add: SheetFSCheck_def SheetFSCheckWith_def split: option.splits)
  next
    case chkps: (Inr chkpFileNames)
    then have "chkpFileNames = []" by (rule DirFilenamesAllSorted_lists_nothing)
    then show ?thesis
      using logs noLogs chkps
      by (simp add: SheetFSCheck_def SheetFSCheckWith_def split: option.splits)
  qed
qed

text \<open>
  C1. The claim: in both modes, when the last log decodes but does not end in the commit
  marker, Check appends a commit marker to it before it returns (C, L). The code: both
  places hold only a TODO comment, and the check writes nothing. On \<open>unsealedDoc\<close>, with
  the directory listing of the specification, the brief and the thorough check return
  (0, 1); \<open>log/1\<close> is as it was, one mutation and no commit marker. With the listing of
  the source (C9) both checks return Unrecoverable.
\<close>

theorem SheetFSCheck_leaves_last_log_unsealed:
  "SheetFSCheckWith (DirListSorted_spec memDfs) memDfs lineFS unsealedDoc 1 False = Inr (0, 1)
   \<and> SheetFSCheckWith (DirListSorted_spec memDfs) memDfs lineFS unsealedDoc 1 True = Inr (0, 1)
   \<and> sheetGetPickledLogFromDfs memDfs lineFS unsealedDoc 1 1
       = ([\<lparr>Lid = 1, Row = 1, Col = 1, Old = [], New = ''A''\<rparr>], None)
   \<and> SheetFSCheck memDfs lineFS unsealedDoc 1 False = Inl SheetFSUnrecoverableErr
   \<and> SheetFSCheck memDfs lineFS unsealedDoc 1 True = Inl SheetFSUnrecoverableErr"
  by code_simp

text \<open>
  C2, as stated: in the state L = C with \<open>log/L\<close> sealed, Check creates the missing
  \<open>log/L+1\<close> and returns. It does not: on \<open>transientDoc\<close> (C = 1, L = 1, \<open>log/1\<close> sealed,
  no \<open>log/2\<close>) the check returns Unrecoverable in both modes, with the listing of the
  specification and with the listing of the source.
\<close>

theorem SheetFSCheck_transient_counterexample:
  "SheetFSCheckWith (DirListSorted_spec memDfs) memDfs lineFS transientDoc 1 False
     = Inl SheetFSUnrecoverableErr
   \<and> SheetFSCheckWith (DirListSorted_spec memDfs) memDfs lineFS transientDoc 1 True
     = Inl SheetFSUnrecoverableErr
   \<and> SheetFSCheck memDfs lineFS transientDoc 1 False = Inl SheetFSUnrecoverableErr
   \<and> SheetFSCheck memDfs lineFS transientDoc 1 True = Inl SheetFSUnrecoverableErr
   \<and> DirListSorted_spec memDfs transientDoc ''sheet/1/log'' = Inr [''1'']
   \<and> DirListSorted_spec memDfs transientDoc ''sheet/1/checkpoint'' = Inr [''1'']
   \<and> sheetGetPickledLogFromDfs memDfs lineFS transientDoc 1 1
       = ([\<lparr>Lid = 1, Row = 1, Col = 1, Old = [], New = ''A''\<rparr>, logCommitEntry], None)"
  by code_simp

text \<open>
  The check panics only where it takes the last entry of a log that decoded, without an
  error, to no entry at all: a log among \<open>1..L\<close> in thorough mode, \<open>log/L\<close> in brief mode.
\<close>

lemma checkLogFile_panics:
  "checkLogFile ops g d fid curLid expectLid = Some (Panic s) \<Longrightarrow>
     sheetGetPickledLogFromDfs ops g d fid curLid = ([], None)"
  by (auto simp: checkLogFile_def split: prod.splits option.splits if_splits)

lemma checkLogNames_panics:
  "checkLogNames ops g d fid fullChk expectLid expect names = Some (Panic s) \<Longrightarrow>
     \<exists>k. expect < k \<and> k \<le> expect + length names
        \<and> sheetGetPickledLogFromDfs ops g d fid k = ([], None)"
proof (induction names arbitrary: expect)
  case Nil
  then show ?case by simp
next
  case (Cons actual rest)
  show ?case
  proof (cases "if fullChk then checkLogFile ops g d fid (expect + 1) expectLid else None")
    case None
    with Cons.prems
    have "checkLogNames ops g d fid fullChk expectLid (expect + 1) rest = Some (Panic s)"
      by (simp split: if_splits)
    from Cons.IH [OF this] obtain k where "expect + 1 < k" and "k \<le> expect + 1 + length rest"
      and "sheetGetPickledLogFromDfs ops g d fid k = ([], None)"
      by blast
    then show ?thesis
      by (intro exI [of _ k]) simp
  next
    case (Some err)
    with Cons.prems have "checkLogFile ops g d fid (expect + 1) expectLid = Some (Panic s)"
      by (simp split: if_splits)
    then have "sheetGetPickledLogFromDfs ops g d fid (expect + 1) = ([], None)"
      by (rule checkLogFile_panics)
    then show ?thesis
      by (intro exI [of _ "expect + 1"]) simp
  qed
qed

lemma checkLastLogBrief_panics:
  "checkLastLogBrief ops g d fid expectLid = Some (Panic s) \<Longrightarrow>
     sheetGetPickledLogFromDfs ops g d fid expectLid = ([], None)"
  by (auto simp: checkLastLogBrief_def split: prod.splits option.splits if_splits)

text \<open>
  C2, amended: for every layout where the check counts C checkpoint files and L log
  files, and none of the logs \<open>0..L\<close> decodes without an error to no entry, if L differs
  from C + 1 then the check returns Unrecoverable, in brief and in thorough mode. The
  state L = C is no exception.
\<close>

theorem SheetFSCheck_mismatch_fails:
  assumes logs: "ls d (GetLogRootPath g ''sheet'' fid) = Inr logFileNames"
    and chkps: "ls d (GetCheckPointRootPath g ''sheet'' fid) = Inr chkpFileNames"
    and mismatch: "length logFileNames \<noteq> length chkpFileNames + 1"
    and nonempty: "\<And>k. k \<le> length logFileNames \<Longrightarrow>
                     sheetGetPickledLogFromDfs ops g d fid k \<noteq> ([], None)"
  shows "SheetFSCheckWith ls ops g d fid fullChk = Inl SheetFSUnrecoverableErr"
proof (cases "checkLogNames ops g d fid fullChk (length logFileNames) 0 logFileNames")
  case (Some err)
  have "err \<noteq> Panic ''index out of range''"
  proof
    assume "err = Panic ''index out of range''"
    with Some obtain k where "k \<le> 0 + length logFileNames"
      and "sheetGetPickledLogFromDfs ops g d fid k = ([], None)"
      using checkLogNames_panics [of ops g d fid fullChk "length logFileNames" 0 logFileNames]
      by blast
    with nonempty [of k] show False
      by simp
  qed
  with checkLogNames_errors [OF Some] have "err = SheetFSUnrecoverableErr"
    by simp
  with logs Some show ?thesis
    by (simp add: SheetFSCheckWith_def)
next
  case noLogErr: None
  show ?thesis
  proof (cases "if \<not> fullChk then checkLastLogBrief ops g d fid (length logFileNames) else None")
    case (Some err)
    then have brief: "checkLastLogBrief ops g d fid (length logFileNames) = Some err"
      by (simp split: if_splits)
    have "err \<noteq> Panic ''index out of range''"
    proof
      assume "err = Panic ''index out of range''"
      with brief
      have "sheetGetPickledLogFromDfs ops g d fid (length logFileNames) = ([], None)"
        by (simp add: checkLastLogBrief_panics)
      with nonempty [of "length logFileNames"] show False
        by simp
    qed
    with checkLastLogBrief_errors [OF brief] have "err = SheetFSUnrecoverableErr"
      by simp
    with logs noLogErr Some show ?thesis
      by (simp add: SheetFSCheckWith_def)
  next
    case noBriefErr: None
    show ?thesis
    proof (cases "checkChkpNames ops g d fid fullChk 0 chkpFileNames")
      case (Some err)
      then show ?thesis
        using logs chkps noLogErr noBriefErr checkChkpNames_errors [OF Some]
        by (simp add: SheetFSCheckWith_def)
    next
      case None
      then show ?thesis
        using logs chkps noLogErr noBriefErr mismatch
        by (simp add: SheetFSCheckWith_def)
    qed
  qed
qed

text \<open>
  The amended C2 at \<open>transientDoc\<close>. With the listing of the source the check counts
  L = C = 0 and, in brief mode, reads \<open>log/0\<close>, which does not exist. With the listing of
  the specification it counts L = C = 1, and \<open>log/1\<close> holds two entries.
\<close>

theorem SheetFSCheck_mismatch_fails_witness:
  "DirFilenamesAllSorted memDfs transientDoc (GetLogRootPath lineFS ''sheet'' 1) = Inr []
   \<and> DirFilenamesAllSorted memDfs transientDoc (GetCheckPointRootPath lineFS ''sheet'' 1) = Inr []
   \<and> SheetFSCheck memDfs lineFS transientDoc 1 False = Inl SheetFSUnrecoverableErr
   \<and> DirListSorted_spec memDfs transientDoc (GetLogRootPath lineFS ''sheet'' 1) = Inr [''1'']
   \<and> DirListSorted_spec memDfs transientDoc (GetCheckPointRootPath lineFS ''sheet'' 1) = Inr [''1'']
   \<and> SheetFSCheckWith (DirListSorted_spec memDfs) memDfs lineFS transientDoc 1 True
       = Inl SheetFSUnrecoverableErr"
proof -
  have log0: "sheetGetPickledLogFromDfs memDfs lineFS transientDoc 1 0 \<noteq> ([], None)"
    by code_simp
  have log1: "sheetGetPickledLogFromDfs memDfs lineFS transientDoc 1 1 \<noteq> ([], None)"
    by code_simp
  have logs: "DirFilenamesAllSorted memDfs transientDoc (GetLogRootPath lineFS ''sheet'' 1)
      = Inr []"
    by code_simp
  have chkps: "DirFilenamesAllSorted memDfs transientDoc (GetCheckPointRootPath lineFS ''sheet'' 1)
      = Inr []"
    by code_simp
  have mismatch: "length ([] :: string list) \<noteq> length ([] :: string list) + 1"
    by simp
  have nonempty: "\<And>k. k \<le> length ([] :: string list) \<Longrightarrow>
      sheetGetPickledLogFromDfs memDfs lineFS transientDoc 1 k \<noteq> ([], None)"
    using log0 by simp
  have source: "SheetFSCheck memDfs lineFS transientDoc 1 False = Inl SheetFSUnrecoverableErr"
    unfolding SheetFSCheck_def
    by (rule SheetFSCheck_mismatch_fails [where ls = "DirFilenamesAllSorted memDfs"
          and d = transientDoc and g = lineFS and fid = 1 and ops = memDfs and fullChk = False,
          OF logs chkps mismatch nonempty])
  have logs': "DirListSorted_spec memDfs transientDoc (GetLogRootPath lineFS ''sheet'' 1)
      = Inr [''1'']"
    by code_simp
  have chkps': "DirListSorted_spec memDfs transientDoc (GetCheckPointRootPath lineFS ''sheet'' 1)
      = Inr [''1'']"
    by code_simp
  have mismatch': "length [''1''] \<noteq> length [''1''] + 1"
    by simp
  have nonempty': "\<And>k. k \<le> length [''1''] \<Longrightarrow>
      sheetGetPickledLogFromDfs memDfs lineFS transientDoc 1 k \<noteq> ([], None)"
  proof -
    fix k :: nat
    assume "k \<le> length [''1'']"
    then have "k = 0 \<or> k = 1"
      by auto
    with log0 log1 show "sheetGetPickledLogFromDfs memDfs lineFS transientDoc 1 k \<noteq> ([], None)"
      by auto
  qed
  have "SheetFSCheckWith (DirListSorted_spec memDfs) memDfs lineFS transientDoc 1 True
      = Inl SheetFSUnrecoverableErr"
    by (rule SheetFSCheck_mismatch_fails [where ls = "DirListSorted_spec memDfs"
          and d = transientDoc and g = lineFS and fid = 1 and ops = memDfs and fullChk = True,
          OF logs' chkps' mismatch' nonempty'])
  with logs chkps source logs' chkps' show ?thesis
    by simp
qed

text \<open>
  With the listing of the source the thorough check counts L = 0 and C = 0, decodes no
  file, and returns Unrecoverable on every document whose two directories can be scanned.
\<close>

lemma DirFilenamesAllSorted_of_scan:
  "Scan ops d path = Inr fileInfos \<Longrightarrow> DirFilenamesAllSorted ops d path = Inr []"
  by (simp add: DirFilenamesAllSorted_def DirFileNamesAll_def dirNamesLoop.simps sortStrings_def)


text \<open>
  With a listing that returns the names, the validation loop of the thorough check is
  reached for an unsealed last log only: it stands inside the branch taken when the last
  entry is not the commit marker. On \<open>badSealedDoc\<close>, whose sealed \<open>log/1\<close> holds a
  mutation with lid 7, row 0 and col 0, the thorough check with the listing of the
  specification returns (0, 1); the check as written returns Unrecoverable.
\<close>

lemma SheetFSCheckWith_skips_sealed_log:
  "SheetFSCheckWith (DirListSorted_spec memDfs) memDfs lineFS badSealedDoc 1 True = Inr (0, 1)
   \<and> sheetGetPickledLogFromDfs memDfs lineFS badSealedDoc 1 1
       = ([\<lparr>Lid = 7, Row = 0, Col = 0, Old = [], New = ''A''\<rparr>, logCommitEntry], None)
   \<and> logsInvalid 1 [\<lparr>Lid = 7, Row = 0, Col = 0, Old = [], New = ''A''\<rparr>]
   \<and> SheetFSCheck memDfs lineFS badSealedDoc 1 True = Inl SheetFSUnrecoverableErr"
  by code_simp



text \<open>
  C7. The claim: the dense-numbering check passes on every dense layout, also with ten
  or more files. The code: the listing is sorted as strings, so the ten names come as
  1, 10, 2, ..., 9, and the second name is compared with \<open>2\<close>. On \<open>tenLogs\<close> the check
  returns Unrecoverable in both modes, with the listing of the specification and with the
  listing of the source; on \<open>nineLogs\<close>, with the listing of the specification, it
  returns (8, 9).
\<close>

theorem SheetFSCheck_rejects_ten_dense_logs:
  "DirListSorted_spec memDfs tenLogs ''sheet/1/log''
     = Inr ([''1'', ''10''] @ map Itoa [2, 3, 4, 5, 6, 7, 8, 9])
   \<and> SheetFSCheckWith (DirListSorted_spec memDfs) memDfs lineFS tenLogs 1 False
       = Inl SheetFSUnrecoverableErr
   \<and> SheetFSCheckWith (DirListSorted_spec memDfs) memDfs lineFS tenLogs 1 True
       = Inl SheetFSUnrecoverableErr
   \<and> SheetFSCheck memDfs lineFS tenLogs 1 False = Inl SheetFSUnrecoverableErr
   \<and> SheetFSCheck memDfs lineFS tenLogs 1 True = Inl SheetFSUnrecoverableErr
   \<and> SheetFSCheckWith (DirListSorted_spec memDfs) memDfs lineFS nineLogs 1 False = Inr (8, 9)
   \<and> SheetFSCheckWith (DirListSorted_spec memDfs) memDfs lineFS nineLogs 1 True = Inr (8, 9)"
  by code_simp

section \<open>Commit\<close>

text \<open>With the listing of the source the checkpoint number is 0 for every document.\<close>

lemma sheetGetCheckPointNum_is_zero:
  "sheetGetCheckPointNum ops g d fid = Inr chkpNum \<Longrightarrow> chkpNum = 0"
  by (auto simp: sheetGetCheckPointNum_def sheetGetCheckPointNumWith_def
      dest: DirFilenamesAllSorted_lists_nothing split: sum.splits if_splits)

text \<open>
  The early return of \<^verbatim>\<open>commitOneSheetWithCache\<close> is taken when reading the active log
  returned an error together with no entry.
\<close>

lemma commit_returns_early_on_error:
  assumes "sheetGetCheckPointNumWith ls g d fid = Inr chkpNum"
    and "sheetGetPickledLogFromDfs ops g d fid (uadd (uint chkpNum) 1) = (logs, err)"
    and "err \<noteq> None" and "logs = []"
  shows "commitOneSheetWithCacheWith ls ops g mo now d fid memSheet = Some (Inr (uint chkpNum), d)"
  using assms by (simp add: commitOneSheetWithCacheWith_def)

text \<open>
  C3. The claim: when the active log \<open>log/C+1\<close> decodes to an empty sequence, Commit
  returns C and writes nothing, so a second Commit right after a first one changes
  nothing. The code: the test for the empty log stands under \<^verbatim>\<open>err != nil\<close>, so a log that
  decodes to no entry without an error does not stop the commit. On \<open>freshDoc\<close> (C = 0,
  \<open>log/1\<close> empty) the commit returns 1, creates \<open>checkpoint/1\<close>, appends the commit
  marker to \<open>log/1\<close> and creates \<open>log/2\<close>; a second commit on the store this leaves, with
  the listing of the specification, returns 2 and creates \<open>checkpoint/2\<close> and \<open>log/3\<close>.
\<close>

theorem commit_of_empty_log_writes_checkpoint:
  "sheetGetPickledLogFromDfs memDfs lineFS freshDoc 1 1 = ([], None)
   \<and> commitOneSheetWithCache memDfs lineFS gridOps 5 freshDoc 1
         \<lparr>gridCols = 2, gridCells = [''a'', ''b'']\<rparr>
       = Some (Inr 1, doc1 [(''sheet/1/log/1'', ''0,-1,-1,,;''),
                            (''sheet/1/checkpoint/1'', ''1,5,1,2;a;b;''),
                            (''sheet/1/log/2'', [])])
   \<and> commitOneSheetWithCacheWith (DirListSorted_spec memDfs) memDfs lineFS gridOps 5 freshDoc 1
         \<lparr>gridCols = 2, gridCells = [''a'', ''b'']\<rparr>
       = Some (Inr 1, doc1 [(''sheet/1/log/1'', ''0,-1,-1,,;''),
                            (''sheet/1/checkpoint/1'', ''1,5,1,2;a;b;''),
                            (''sheet/1/log/2'', [])])
   \<and> commitOneSheetWithCacheWith (DirListSorted_spec memDfs) memDfs lineFS gridOps 6
         (doc1 [(''sheet/1/log/1'', ''0,-1,-1,,;''),
                (''sheet/1/checkpoint/1'', ''1,5,1,2;a;b;''),
                (''sheet/1/log/2'', [])]) 1
         \<lparr>gridCols = 2, gridCells = [''a'', ''b'']\<rparr>
       = Some (Inr 2, doc1 [(''sheet/1/log/1'', ''0,-1,-1,,;''),
                            (''sheet/1/checkpoint/1'', ''1,5,1,2;a;b;''),
                            (''sheet/1/log/2'', ''0,-1,-1,,;''),
                            (''sheet/1/checkpoint/2'', ''2,6,1,2;a;b;''),
                            (''sheet/1/log/3'', [])])"
  by code_simp

text \<open>Creating an empty file returns: with \<open>initSize = 0\<close> there is no write loop.\<close>

lemma FileCreate_empty_returns:
  "\<exists>err d1. FileCreate ops d path 0 = Some (err, d1)"
  by (simp add: FileCreate_def split: prod.splits sum.splits)

text \<open>
  On a store whose \<open>Write\<close> succeeds and writes nothing, the write loop does not return.
\<close>

lemma writeAllLoop_stalls:
  assumes stall: "\<And>s fd off buf. Write ops s fd off buf = (Inr 0, s)"
    and pos: "0 < toWrite"
  shows "writeAllLoop ops fd content d off toWrite = None"
proof (rule ccontr)
  assume "writeAllLoop ops fd content d off toWrite \<noteq> None"
  then obtain y where y: "writeAllLoop ops fd content d off toWrite = Some y"
    by auto
  have "(\<forall>s fd off buf. Write ops s fd off buf = (Inr 0, s)) \<longrightarrow> \<not> 0 < toWrite"
  proof (rule writeAllLoop.raw_induct [where P = "\<lambda>ops fd content d off toWrite y.
          (\<forall>s fd off buf. Write ops s fd off buf = (Inr 0, s)) \<longrightarrow> \<not> 0 < toWrite",
          OF _ y])
    fix loop :: "'a dfs \<Rightarrow> int \<Rightarrow> string \<Rightarrow> 'a \<Rightarrow> int \<Rightarrow> int \<Rightarrow> (error option \<times> 'a) option"
      and ops fd content d off toWrite r
    assume IH: "\<And>ops fd content d off toWrite r. loop ops fd content d off toWrite = Some r
        \<Longrightarrow> (\<forall>s fd off buf. Write ops s fd off buf = (Inr 0, s)) \<longrightarrow> \<not> 0 < toWrite"
      and body: "(if toWrite > 0 then
          (case Write ops d fd off (take (nat toWrite) content) of
             (Inl err, d') \<Rightarrow> Some (Some err, d')
           | (Inr n, d') \<Rightarrow> loop ops fd content d' (off + int n) (toWrite - int n))
          else Some (if toWrite \<noteq> 0 then Some ShortWrite else None, d)) = Some r"
    show "(\<forall>s fd off buf. Write ops s fd off buf = (Inr 0, s)) \<longrightarrow> \<not> 0 < toWrite"
    proof (intro impI notI)
      assume st: "\<forall>s fd off buf. Write ops s fd off buf = (Inr 0, s)" and p: "0 < toWrite"
      from st have "Write ops d fd off (take (nat toWrite) content) = (Inr 0, d)"
        by simp
      with body p have "loop ops fd content d off toWrite = Some r"
        by simp
      from IH [OF this] st p show False
        by simp
    qed
  qed
  with stall pos show False
    by simp
qed

text \<open>
  C10, as stated: when creating \<open>checkpoint/C+1\<close> fails, Commit still returns C + 1 and
  leaves \<open>log/C+1\<close> sealed with no checkpoint file for it on disk. On \<open>unsealedDoc\<close>
  (C = 0), with a store on which every \<open>Write\<close> fails, creating \<open>checkpoint/1\<close> fails
  after the empty file was created, the append of the commit marker fails too, and Commit
  returns 1: \<open>checkpoint/1\<close> is on disk, empty, and \<open>log/1\<close> is not sealed. On
  \<open>readOnlyDoc\<close>, with a store on which every \<open>Write\<close> writes nothing, creating
  \<open>checkpoint/1\<close> fails and the append of the commit marker does not return, so Commit
  does not return.
\<close>

theorem commit_after_failed_checkpoint_counterexample:
  "sheetCreatePickledCheckPointInDfs fullDiskDfs lineFS unsealedDoc 1 1
       \<lparr>Cid = 1, Timestamp = 5, Rows = 1, Columns = 1, Content = [''A'']\<rparr>
     = Some (Some (DfsError ''disk full''),
             doc1 [(''sheet/1/log/1'', ''1,1,1,,A;''), (''sheet/1/checkpoint/1'', [])])
   \<and> commitOneSheetWithCache fullDiskDfs lineFS gridOps 5 unsealedDoc 1
         \<lparr>gridCols = 1, gridCells = [''A'']\<rparr>
       = Some (Inr 1, doc1 [(''sheet/1/log/1'', ''1,1,1,,A;''), (''sheet/1/checkpoint/1'', []),
                            (''sheet/1/log/2'', [])])
   \<and> sheetCreatePickledCheckPointInDfs stalledDfs lineFS readOnlyDoc 1 1
         \<lparr>Cid = 1, Timestamp = 5, Rows = 1, Columns = 1, Content = [''B'']\<rparr>
       = Some (Some (DfsError ''file exists''), readOnlyDoc)
   \<and> commitOneSheetWithCache stalledDfs lineFS gridOps 5 readOnlyDoc 1
         \<lparr>gridCols = 1, gridCells = [''B'']\<rparr> = None"
proof -
  let ?sheet = "\<lparr>gridCols = 1, gridCells = [''B'']\<rparr>"
  have full: "sheetCreatePickledCheckPointInDfs fullDiskDfs lineFS unsealedDoc 1 1
       \<lparr>Cid = 1, Timestamp = 5, Rows = 1, Columns = 1, Content = [''A'']\<rparr>
     = Some (Some (DfsError ''disk full''),
             doc1 [(''sheet/1/log/1'', ''1,1,1,,A;''), (''sheet/1/checkpoint/1'', [])])
   \<and> commitOneSheetWithCache fullDiskDfs lineFS gridOps 5 unsealedDoc 1
         \<lparr>gridCols = 1, gridCells = [''A'']\<rparr>
       = Some (Inr 1, doc1 [(''sheet/1/log/1'', ''1,1,1,,A;''), (''sheet/1/checkpoint/1'', []),
                            (''sheet/1/log/2'', [])])"
    by code_simp
  have num: "sheetGetCheckPointNumWith (DirFilenamesAllSorted stalledDfs) lineFS readOnlyDoc 1
      = Inr 0"
    by code_simp
  have one: "uadd (uint 0) 1 = 1"
    by (simp add: uadd_def uint_def)
  have logs: "sheetGetPickledLogFromDfs stalledDfs lineFS readOnlyDoc 1 1
      = ([\<lparr>Lid = 1, Row = 1, Col = 1, Old = [], New = ''A''\<rparr>, logCommitEntry], None)"
    by code_simp
  have shape: "Shape gridOps ?sheet = (1, 1)" and cells: "ToStringSlice gridOps ?sheet = [''B'']"
    by (simp_all add: gridOps_def)
  have created: "sheetCreatePickledCheckPointInDfs stalledDfs lineFS readOnlyDoc 1 1
         \<lparr>Cid = 1, Timestamp = 5, Rows = 1, Columns = 1, Content = [''B'']\<rparr>
       = Some (Some (DfsError ''file exists''), readOnlyDoc)"
    by code_simp
  have info: "Stat stalledDfs readOnlyDoc (GetLogPath lineFS ''sheet'' 1 1)
      = Inr \<lparr>Name = ''1'', IsDir = False, Size = 19\<rparr>"
    by code_simp
  have opened: "Open stalledDfs readOnlyDoc (GetLogPath lineFS ''sheet'' 1 1) = Inr 0"
    by code_simp
  have marker: "0 < int (length (MarshalSheetLog lineFS logCommitEntry))"
    by code_simp
  have stall: "\<And>s fd off buf. Write stalledDfs s fd off buf = (Inr 0, s)"
    by (simp add: stalledDfs_def)
  have "writeAll stalledDfs readOnlyDoc 0 19 (MarshalSheetLog lineFS logCommitEntry) = None"
    unfolding writeAll_def using stall marker by (rule writeAllLoop_stalls)
  then have appended: "appendOneSheetLog stalledDfs lineFS readOnlyDoc 1 1 logCommitEntry = None"
    unfolding appendOneSheetLog_def FileAppend_def info opened by simp
  have "commitOneSheetWithCache stalledDfs lineFS gridOps 5 readOnlyDoc 1 ?sheet = None"
    unfolding commitOneSheetWithCache_def commitOneSheetWithCacheWith_def num
    using one logs shape cells created appended by simp
  with full created show ?thesis by simp
qed

text \<open>
  C10, amended: let C be the checkpoint number Commit computes, let the read of \<open>log/C+1\<close>
  not stop the commit, and let every \<open>Write\<close> of the store that succeeds on a non-empty
  buffer write at least one byte. If creating \<open>checkpoint/C+1\<close> fails, Commit does not
  abort or roll back: the append of the commit marker to \<open>log/C+1\<close> is made and returns,
  the creation of \<open>log/C+2\<close> is made and returns, and Commit returns C + 1 with the store
  these two calls leave; their errors are only logged.
\<close>

theorem commit_continues_after_failed_checkpoint:
  assumes num: "sheetGetCheckPointNumWith ls g d fid = Inr chkpNum"
    and C: "C = uint chkpNum"
    and logs: "sheetGetPickledLogFromDfs ops g d fid (uadd C 1) = (logs, err)"
    and proceed: "err = None \<or> logs \<noteq> []"
    and fails: "sheetCreatePickledCheckPointInDfs ops g d fid (uadd C 1)
                  \<lparr>Cid = uadd C 1, Timestamp = now, Rows = fst (Shape mo memSheet),
                   Columns = snd (Shape mo memSheet), Content = ToStringSlice mo memSheet\<rparr>
                = Some (Some e, d1)"
    and progress: "\<And>s fd off buf n s'. buf \<noteq> [] \<Longrightarrow> Write ops s fd off buf = (Inr n, s') \<Longrightarrow> 0 < n"
  shows "\<exists>d2 err3 d3.
           appendOneSheetLog ops g d1 fid (uadd C 1) logCommitEntry = Some d2
           \<and> sheetCreateLogFile ops g d2 fid (uadd (uadd C 1) 1) = Some (err3, d3)
           \<and> commitOneSheetWithCacheWith ls ops g mo now d fid memSheet = Some (Inr (uadd C 1), d3)"
proof -
  from FileAppend_returns [of ops d1 "GetLogPath g ''sheet'' fid (uadd C 1)"
      "MarshalSheetLog g logCommitEntry"] progress
  obtain r where "FileAppend ops d1 (GetLogPath g ''sheet'' fid (uadd C 1))
      (MarshalSheetLog g logCommitEntry) = Some r"
    by blast
  then obtain d2 where appended: "appendOneSheetLog ops g d1 fid (uadd C 1) logCommitEntry = Some d2"
    by (cases r) (simp add: appendOneSheetLog_def)
  from FileCreate_empty_returns [of ops d2 "GetLogPath g ''sheet'' fid (uadd (uadd C 1) 1)"]
  obtain err3 d3 where cr: "sheetCreateLogFile ops g d2 fid (uadd (uadd C 1) 1) = Some (err3, d3)"
    unfolding sheetCreateLogFile_def by blast
  have "commitOneSheetWithCacheWith ls ops g mo now d fid memSheet = Some (Inr (uadd C 1), d3)"
    using num C logs proceed fails appended cr
    by (auto simp: commitOneSheetWithCacheWith_def Let_def split: prod.splits)
  with appended cr show ?thesis by blast
qed

text \<open>
  The amended C10 at \<open>readOnlyDoc\<close>, with the listing of the source: Commit computes
  C = 0, creating \<open>checkpoint/1\<close> fails (the file exists), the commit marker is appended
  to \<open>log/1\<close>, creating \<open>log/2\<close> fails (the file exists), and Commit returns 1.
\<close>

theorem commit_continues_after_failed_checkpoint_witness:
  "sheetGetCheckPointNum progressDfs lineFS readOnlyDoc 1 = Inr 0
   \<and> sheetCreatePickledCheckPointInDfs progressDfs lineFS readOnlyDoc 1 1
         \<lparr>Cid = 1, Timestamp = 5, Rows = 1, Columns = 1, Content = [''B'']\<rparr>
       = Some (Some (DfsError ''file exists''), readOnlyDoc)
   \<and> commitOneSheetWithCache progressDfs lineFS gridOps 5 readOnlyDoc 1
         \<lparr>gridCols = 1, gridCells = [''B'']\<rparr>
       = Some (Inr 1, readOnlyDoc\<lparr>files :=
            [(''sheet/1/log/1'', ''1,1,1,,A;0,-1,-1,,;0,-1,-1,,;''),
             (''sheet/1/checkpoint/1'', ''1,0,1,1;A;''), (''sheet/1/log/2'', ''2,1,1,A,B;'')]\<rparr>)"
proof -
  let ?sheet = "\<lparr>gridCols = 1, gridCells = [''B'']\<rparr>"
  let ?d2 = "readOnlyDoc\<lparr>files :=
      [(''sheet/1/log/1'', ''1,1,1,,A;0,-1,-1,,;0,-1,-1,,;''),
       (''sheet/1/checkpoint/1'', ''1,0,1,1;A;''), (''sheet/1/log/2'', ''2,1,1,A,B;'')]\<rparr>"
  have one: "uadd 0 1 = 1" and two: "uadd 1 1 = 2"
    by (simp_all add: uadd_def)
  have num: "sheetGetCheckPointNumWith (DirFilenamesAllSorted progressDfs) lineFS readOnlyDoc 1
      = Inr 0"
    by code_simp
  have C: "(0::nat) = uint 0"
    by (simp add: uint_def)
  have logs: "sheetGetPickledLogFromDfs progressDfs lineFS readOnlyDoc 1 (uadd 0 1)
      = ([\<lparr>Lid = 1, Row = 1, Col = 1, Old = [], New = ''A''\<rparr>, logCommitEntry], None)"
    unfolding one by code_simp
  have proceed: "(None :: error option) = None
      \<or> [\<lparr>Lid = 1, Row = 1, Col = 1, Old = [], New = ''A''\<rparr>, logCommitEntry] \<noteq> []"
    by simp
  have created: "sheetCreatePickledCheckPointInDfs progressDfs lineFS readOnlyDoc 1 1
       \<lparr>Cid = 1, Timestamp = 5, Rows = 1, Columns = 1, Content = [''B'']\<rparr>
     = Some (Some (DfsError ''file exists''), readOnlyDoc)"
    by code_simp
  have shape: "Shape gridOps ?sheet = (1, 1)" and cells: "ToStringSlice gridOps ?sheet = [''B'']"
    by (simp_all add: gridOps_def)
  have fails: "sheetCreatePickledCheckPointInDfs progressDfs lineFS readOnlyDoc 1 (uadd 0 1)
       \<lparr>Cid = uadd 0 1, Timestamp = 5, Rows = fst (Shape gridOps ?sheet),
        Columns = snd (Shape gridOps ?sheet), Content = ToStringSlice gridOps ?sheet\<rparr>
     = Some (Some (DfsError ''file exists''), readOnlyDoc)"
    unfolding one shape cells using created by simp
  have progress: "\<And>s fd off buf n s'.
      buf \<noteq> [] \<Longrightarrow> Write progressDfs s fd off buf = (Inr n, s') \<Longrightarrow> 0 < n"
    by (auto simp: progressDfs_def memWrite_def Let_def split: if_splits prod.splits)
  have appended: "appendOneSheetLog progressDfs lineFS readOnlyDoc 1 1 logCommitEntry = Some ?d2"
    by code_simp
  have createdLog: "sheetCreateLogFile progressDfs lineFS ?d2 1 2
      = Some (Some (DfsError ''file exists''), ?d2)"
    by code_simp
  have "\<exists>d2 err3 d3.
      appendOneSheetLog progressDfs lineFS readOnlyDoc 1 (uadd 0 1) logCommitEntry = Some d2
      \<and> sheetCreateLogFile progressDfs lineFS d2 1 (uadd (uadd 0 1) 1) = Some (err3, d3)
      \<and> commitOneSheetWithCacheWith (DirFilenamesAllSorted progressDfs) progressDfs lineFS
           gridOps 5 readOnlyDoc 1 ?sheet = Some (Inr (uadd 0 1), d3)"
    by (rule commit_continues_after_failed_checkpoint
          [where ls = "DirFilenamesAllSorted progressDfs" and g = lineFS and d = readOnlyDoc
             and fid = 1 and ops = progressDfs and mo = gridOps and memSheet = ?sheet and now = 5,
           OF num C logs proceed fails])
       (rule progress)
  then obtain d2 err3 d3 where
    ap: "appendOneSheetLog progressDfs lineFS readOnlyDoc 1 (uadd 0 1) logCommitEntry = Some d2"
    and cr: "sheetCreateLogFile progressDfs lineFS d2 1 (uadd (uadd 0 1) 1) = Some (err3, d3)"
    and cm: "commitOneSheetWithCacheWith (DirFilenamesAllSorted progressDfs) progressDfs lineFS
           gridOps 5 readOnlyDoc 1 ?sheet = Some (Inr (uadd 0 1), d3)"
    by blast
  from ap have "d2 = ?d2"
    unfolding one using appended by simp
  with cr have "sheetCreateLogFile progressDfs lineFS ?d2 1 2 = Some (err3, d3)"
    unfolding one two by simp
  with createdLog have "d3 = ?d2"
    by simp
  with cm have "commitOneSheetWithCache progressDfs lineFS gridOps 5 readOnlyDoc 1 ?sheet
      = Some (Inr 1, ?d2)"
    unfolding one commitOneSheetWithCache_def by simp
  moreover have "sheetGetCheckPointNum progressDfs lineFS readOnlyDoc 1 = Inr 0"
    unfolding sheetGetCheckPointNum_def by (rule num)
  ultimately show ?thesis
    using created by simp
qed

section \<open>Recovery\<close>

text \<open>The redo loop applies the entries but the last, in order.\<close>

lemma redoLogs_drop:
  "redoLogs mo ms logs li =
     foldl (\<lambda>s e. SetCell mo s (Row e) (Col e) (New e)) ms (drop li (butlast logs))"
proof (induction mo ms logs li rule: redoLogs.induct)
  case (1 mo memSheet logs li)
  show ?case
  proof (cases "int li < int (length logs) - 1")
    case True
    then have lt: "li < length (butlast logs)" by simp
    have "drop li (butlast logs) = (butlast logs ! li) # drop (li + 1) (butlast logs)"
      using lt by (simp add: Cons_nth_drop_Suc)
    moreover have "butlast logs ! li = logs ! li" using lt by (simp add: nth_butlast)
    ultimately show ?thesis
      using True 1 by (subst redoLogs.simps) simp
  next
    case False
    then show ?thesis by (subst redoLogs.simps) simp
  qed
qed

lemma redoLogs_butlast:
  "redoLogs mo ms logs 0 = foldl (\<lambda>s e. SetCell mo s (Row e) (Col e) (New e)) ms (butlast logs)"
  by (simp add: redoLogs_drop)

text \<open>
  The sheet \<^verbatim>\<open>recoverSheetFromLog\<close> builds, for the checkpoint number C that
  \<^verbatim>\<open>sheetGetCheckPointNum\<close> returns (as \<^verbatim>\<open>uint\<close>) under a given listing: the base sheet is
  \<^verbatim>\<open>NewMemSheet(10, 10)\<close> if C = 0 and otherwise the sheet made from the content and the
  column count of the decoded \<open>checkpoint/C\<close>; the entries of \<open>log/C+1\<close> but the last are
  applied to it in order as \<open>sheet[row, col] := new\<close>, and the result is handed to the
  cache.
\<close>

lemma rebuildSheetWith_builds:
  assumes num: "sheetGetCheckPointNumWith ls g d fid = Inr chkpNum"
    and C: "C = uint chkpNum"
    and base: "if C = 0 then base = NewMemSheet mo 10 10
               else (\<exists>chkp. sheetGetPickledCheckPointFromDfs ops g d fid C = Inr chkp
                      \<and> base = NewMemSheetFromStringSlice mo (Content chkp) (Columns chkp))"
    and logs: "sheetGetPickledLogFromDfs ops g d fid (uadd C 1) = (logs, None)"
  shows "rebuildSheetWith ls ops g mo d fid =
           Inr (Some (foldl (\<lambda>s e. SetCell mo s (Row e) (Col e) (New e)) base (butlast logs)))
       \<and> (\<forall>muts. logs = muts @ [logCommitEntry] \<longrightarrow>
            rebuildSheetWith ls ops g mo d fid =
              Inr (Some (foldl (\<lambda>s e. SetCell mo s (Row e) (Col e) (New e)) base muts)))
       \<and> recoverSheetFromLogWith ls ops g mo add now d c fid =
           (case add c fid (foldl (\<lambda>s e. SetCell mo s (Row e) (Col e) (New e)) base (butlast logs)) of
              ((Some ms, keys, evicted), c1) \<Rightarrow>
                (case commitSheetsWithCacheWith ls ops g mo now d keys evicted of
                   None \<Rightarrow> None
                 | Some (Some err, d1) \<Rightarrow> Some (Inl err, d1, c1)
                 | Some (None, d1) \<Rightarrow> Some (Inr (Some ms, True), d1, c1))
            | ((None, keys, evicted), c1) \<Rightarrow>
                Some (Inr (Some (foldl (\<lambda>s e. SetCell mo s (Row e) (Col e) (New e)) base (butlast logs)),
                           False), d, c1))"
proof -
  let ?built = "foldl (\<lambda>s e. SetCell mo s (Row e) (Col e) (New e)) base (butlast logs)"
  have built: "rebuildSheetWith ls ops g mo d fid = Inr (Some ?built)"
  proof (cases "C = 0")
    case True
    then show ?thesis
      using num C base logs
      by (simp add: rebuildSheetWith_def minRows_def minCols_def redoLogs_butlast)
  next
    case False
    then obtain chkp where "sheetGetPickledCheckPointFromDfs ops g d fid C = Inr chkp"
      and "base = NewMemSheetFromStringSlice mo (Content chkp) (Columns chkp)"
      using base by auto
    then show ?thesis
      using False num C logs by (simp add: rebuildSheetWith_def redoLogs_butlast)
  qed
  moreover have "\<forall>muts. logs = muts @ [logCommitEntry] \<longrightarrow>
      rebuildSheetWith ls ops g mo d fid =
        Inr (Some (foldl (\<lambda>s e. SetCell mo s (Row e) (Col e) (New e)) base muts))"
    using built by auto
  ultimately show ?thesis
    by (simp add: recoverSheetFromLogWith_def)
qed

text \<open>
  With the listing of the source the checkpoint number is 0 for every document, so the
  function as written never reads a checkpoint: whenever \<open>log/1\<close> decodes, the sheet it
  builds is the empty 10 by 10 sheet with the entries of \<open>log/1\<close> but the last applied.
\<close>

lemma recoverSheetFromLog_starts_from_empty_sheet:
  assumes listed: "Scan ops d (GetCheckPointRootPath g ''sheet'' fid) = Inr chkpInfos"
    and logs: "sheetGetPickledLogFromDfs ops g d fid 1 = (logs, None)"
  shows "rebuildSheetWith (DirFilenamesAllSorted ops) ops g mo d fid =
           Inr (Some (foldl (\<lambda>s e. SetCell mo s (Row e) (Col e) (New e))
                        (NewMemSheet mo 10 10) (butlast logs)))"
proof -
  have num: "sheetGetCheckPointNumWith (DirFilenamesAllSorted ops) g d fid = Inr 0"
    using listed [THEN DirFilenamesAllSorted_of_scan] by (simp add: sheetGetCheckPointNumWith_def)
  have C: "(0::nat) = uint 0"
    by (simp add: uint_def)
  have one: "uadd 0 1 = 1"
    by (simp add: uadd_def)
  have base: "if (0::nat) = 0 then NewMemSheet mo 10 10 = NewMemSheet mo 10 10
      else (\<exists>chkp. sheetGetPickledCheckPointFromDfs ops g d fid 0 = Inr chkp
             \<and> NewMemSheet mo 10 10 = NewMemSheetFromStringSlice mo (Content chkp) (Columns chkp))"
    by simp
  have logs': "sheetGetPickledLogFromDfs ops g d fid (uadd 0 1) = (logs, None)"
    unfolding one by (rule logs)
  show ?thesis
    by (rule rebuildSheetWith_builds [where ls = "DirFilenamesAllSorted ops" and g = g and d = d
          and fid = fid and ops = ops and mo = mo, OF num C base logs', THEN conjunct1])
qed

text \<open>
  C5. The claim: with C the checkpoint count, Recover starts from the empty 10 by 10
  sheet if C = 0 and from the content of \<open>checkpoint/C\<close> otherwise, and redoes the entries
  of \<open>log/C+1\<close> but the last. The code: the checkpoint count comes from
  \<^verbatim>\<open>sheetGetCheckPointNum\<close>, which lists the checkpoint directory with
  \<^verbatim>\<open>DirFilenamesAllSorted\<close>; that listing is always empty (C9), so the count is 0 whatever
  the directory holds. On \<open>recoverDoc\<close> the checkpoint directory holds \<open>checkpoint/1\<close>,
  the sheet \<open>a b\<close>, and the sealed \<open>log/2\<close> sets (1, 2) to \<open>B\<close> and (1, 1) to \<open>C\<close>, so the
  claim's sheet is \<open>C B\<close> with two columns. Recover returns the empty 10 by 10 sheet with
  the one mutation of \<open>log/1\<close> redone, ten columns wide. With the listing of the
  specification the same function builds \<open>C B\<close>.
\<close>

theorem recover_ignores_checkpoint:
  "Scan memDfs recoverDoc (GetCheckPointRootPath lineFS ''sheet'' 1)
     = Inr [\<lparr>Name = ''1'', IsDir = False, Size = 12\<rparr>]
   \<and> sheetGetPickledCheckPointFromDfs memDfs lineFS recoverDoc 1 1
       = Inr \<lparr>Cid = 1, Timestamp = 0, Rows = 1, Columns = 2, Content = [''a'', ''b'']\<rparr>
   \<and> sheetGetPickledLogFromDfs memDfs lineFS recoverDoc 1 2
       = ([\<lparr>Lid = 2, Row = 1, Col = 2, Old = ''b'', New = ''B''\<rparr>,
           \<lparr>Lid = 2, Row = 1, Col = 1, Old = ''a'', New = ''C''\<rparr>, logCommitEntry], None)
   \<and> sheetGetCheckPointNum memDfs lineFS recoverDoc 1 = Inr 0
   \<and> recoverSheetFromLog memDfs lineFS gridOps cacheAdd 5 recoverDoc
         \<lparr>capacity = 1, entries = []\<rparr> 1
       = Some (Inr (Some (gridSet (NewMemSheet gridOps 10 10) 1 1 ''a''), False), recoverDoc,
               \<lparr>capacity = 1, entries = [(1, gridSet (NewMemSheet gridOps 10 10) 1 1 ''a'')]\<rparr>)
   \<and> gridCols (gridSet (NewMemSheet gridOps 10 10) 1 1 ''a'') = 10
   \<and> rebuildSheetWith (DirListSorted_spec memDfs) memDfs lineFS gridOps recoverDoc 1
       = Inr (Some \<lparr>gridCols = 2, gridCells = [''C'', ''B'']\<rparr>)"
  by code_simp

text \<open>
  What Recover does with the answer of the cache: the evicted sheets are committed, in
  order, when \<open>Add\<close> returns a sheet, and nothing is committed when it returns nil.
\<close>

lemma recover_commits_evicted_when_add_returns_sheet:
  assumes "rebuildSheetWith ls ops g mo d fid = Inr (Some memSheet)"
    and "add c fid memSheet = ((Some ms, keys, evicted), c1)"
    and "commitSheetsWithCacheWith ls ops g mo now d keys evicted = Some (None, d1)"
  shows "recoverSheetFromLogWith ls ops g mo add now d c fid = Some (Inr (Some ms, True), d1, c1)"
  using assms by (simp add: recoverSheetFromLogWith_def)

lemma recover_commits_nothing_when_add_returns_nil:
  assumes "rebuildSheetWith ls ops g mo d fid = Inr (Some memSheet)"
    and "add c fid memSheet = ((None, keys, evicted), c1)"
  shows "recoverSheetFromLogWith ls ops g mo add now d c fid
           = Some (Inr (Some memSheet, False), d, c1)"
  using assms by (simp add: recoverSheetFromLogWith_def)

text \<open>
  C4. The claim: every sheet the admission evicts is committed before Recover returns.
  The code commits the evicted sheets in the branch where \<open>Add\<close> returned a sheet; in the
  cache of the specification \<open>Add\<close> returns the existing sheet only when the fid is already
  resident, and evicts only when it is not. On \<open>twoDocs\<close>, with a cache of capacity 1 that
  holds document 7, recovering document 9 evicts document 7 and returns the new sheet
  with \<open>inCache = false\<close>; the store is unchanged, so the sheet of document 7 is dropped
  with no checkpoint written. A commit of that sheet would have written \<open>checkpoint/1\<close>.
\<close>

theorem recover_drops_evicted_sheet_uncommitted:
  "cacheAdd \<lparr>capacity = 1, entries = [(7, \<lparr>gridCols = 1, gridCells = [''A'']\<rparr>)]\<rparr> 9
       (NewMemSheet gridOps 10 10)
     = ((None, [7], [\<lparr>gridCols = 1, gridCells = [''A'']\<rparr>]),
        \<lparr>capacity = 1, entries = [(9, NewMemSheet gridOps 10 10)]\<rparr>)
   \<and> recoverSheetFromLog memDfs lineFS gridOps cacheAdd 5 twoDocs
         \<lparr>capacity = 1, entries = [(7, \<lparr>gridCols = 1, gridCells = [''A'']\<rparr>)]\<rparr> 9
       = Some (Inr (Some (NewMemSheet gridOps 10 10), False), twoDocs,
               \<lparr>capacity = 1, entries = [(9, NewMemSheet gridOps 10 10)]\<rparr>)
   \<and> recoverSheetFromLogWith (DirListSorted_spec memDfs) memDfs lineFS gridOps cacheAdd 5 twoDocs
         \<lparr>capacity = 1, entries = [(7, \<lparr>gridCols = 1, gridCells = [''A'']\<rparr>)]\<rparr> 9
       = Some (Inr (Some (NewMemSheet gridOps 10 10), False), twoDocs,
               \<lparr>capacity = 1, entries = [(9, NewMemSheet gridOps 10 10)]\<rparr>)
   \<and> commitOneSheetWithCache memDfs lineFS gridOps 5 twoDocs 7 \<lparr>gridCols = 1, gridCells = [''A'']\<rparr>
       = Some (Inr 1, twoDocs\<lparr>files :=
           [(''sheet/7/log/1'', ''1,1,1,,A;0,-1,-1,,;''), (''sheet/9/log/1'', []),
            (''sheet/7/checkpoint/1'', ''1,5,1,1;A;''), (''sheet/7/log/2'', [])]\<rparr>)"
  by code_simp

end
